theory Spec2Isabelle
  imports Complex_Main "HOL-Library.AList"
begin

section \<open>Python values and string helpers\<close>

text \<open>
  The services work on dict-shaped records. A value stored under a key is a string,
  \<open>None\<close>, a number or a nested dict; a key may also be absent. Python's floats are taken as
  real numbers and Python's strings as lists of 8-bit characters (ASCII case mapping and
  ASCII white space and digits).
\<close>

datatype py_error = AttributeError | KeyError | TypeError

datatype pyval = PNone | PStr string | PNum real | PDict "(string \<times> pyval) list"

type_synonym pydict = "string \<rightharpoonup> pyval"

text \<open>\<open>d.get(key, '')\<close>: the default only stands in for an absent key.\<close>

definition get_or_empty :: "pydict \<Rightarrow> string \<Rightarrow> pyval" where
  "get_or_empty d k = (case d k of None \<Rightarrow> PStr [] | Some v \<Rightarrow> v)"

text \<open>Truthiness, as in \<open>if not value\<close>.\<close>

fun truthy :: "pyval \<Rightarrow> bool" where
  "truthy PNone = False"
| "truthy (PStr s) = (s \<noteq> [])"
| "truthy (PNum x) = (x \<noteq> 0)"
| "truthy (PDict d) = (d \<noteq> [])"

definition lower_char :: "char \<Rightarrow> char" where
  "lower_char c = (let n = (of_char c :: nat) in if 65 \<le> n \<and> n \<le> 90 then char_of (n + 32) else c)"

definition upper_char :: "char \<Rightarrow> char" where
  "upper_char c = (let n = (of_char c :: nat) in if 97 \<le> n \<and> n \<le> 122 then char_of (n - 32) else c)"

definition is_space :: "char \<Rightarrow> bool" where
  "is_space c = (let n = (of_char c :: nat) in (9 \<le> n \<and> n \<le> 13) \<or> (28 \<le> n \<and> n \<le> 32))"

definition is_digit :: "char \<Rightarrow> bool" where
  "is_digit c = (let n = (of_char c :: nat) in 48 \<le> n \<and> n \<le> 57)"

definition str_lower :: "string \<Rightarrow> string" where
  "str_lower s = map lower_char s"

definition str_upper :: "string \<Rightarrow> string" where
  "str_upper s = map upper_char s"

definition str_strip :: "string \<Rightarrow> string" where
  "str_strip s = rev (dropWhile is_space (rev (dropWhile is_space s)))"

text \<open>The string methods raise \<open>AttributeError\<close> on anything that is not a string.\<close>

fun py_lower :: "pyval \<Rightarrow> py_error + string" where
  "py_lower (PStr s) = Inr (str_lower s)"
| "py_lower _ = Inl AttributeError"

fun py_upper :: "pyval \<Rightarrow> py_error + string" where
  "py_upper (PStr s) = Inr (str_upper s)"
| "py_upper _ = Inl AttributeError"

fun py_strip :: "pyval \<Rightarrow> py_error + string" where
  "py_strip (PStr s) = Inr (str_strip s)"
| "py_strip _ = Inl AttributeError"

text \<open>\<open>sub in s\<close> on strings: \<open>sub\<close> occurs in \<open>s\<close> as a contiguous block.\<close>

fun starts_with :: "string \<Rightarrow> string \<Rightarrow> bool" where
  "starts_with [] s = True"
| "starts_with (x # xs) [] = False"
| "starts_with (x # xs) (y # ys) = (x = y \<and> starts_with xs ys)"

fun str_contains :: "string \<Rightarrow> string \<Rightarrow> bool" where
  "str_contains sub [] = (sub = [])"
| "str_contains sub (c # cs) = (starts_with sub (c # cs) \<or> str_contains sub cs)"

text \<open>
  \<open>round(x, 2)\<close>: the nearest multiple of one hundredth, a tie going to the even one.
\<close>

definition py_round2 :: "real \<Rightarrow> real" where
  "py_round2 x =
     (let y = x * 100; f = \<lfloor>y\<rfloor>; d = y - of_int f
      in of_int (if d < 1 / 2 then f else if 1 / 2 < d then f + 1
                 else if even f then f else f + 1) / 100)"

section \<open>Lead scoring (services/lead\_scoring.py)\<close>

record criterion =
  criteria_type :: string
  weight :: real
  positive_values :: "string list option"
  negative_values :: "string list option"
  threshold_score :: "real option"

record scoring_profile =
  criteria :: "criterion list option"
  auto_qualify_threshold :: "real option"
  require_review_threshold :: "real option"
  disqualify_threshold :: "real option"

record criteria_score =
  score :: real
  raw_score :: real
  cs_weight :: real
  cs_reasoning :: "string list"

record score_result =
  total_score :: real
  sr_raw_score :: real
  max_possible_score :: real
  criteria_scores :: "(string \<times> criteria_score) list"
  confidence :: real
  reasoning :: "string list"

definition values_or_empty :: "string list option \<Rightarrow> string list" where
  "values_or_empty v = (case v of None \<Rightarrow> [] | Some xs \<Rightarrow> xs)"

text \<open>\<open>email.split('@')[1]\<close> when the address holds an \<open>@\<close>, else the empty string.\<close>

definition email_domain_of :: "string \<Rightarrow> string" where
  "email_domain_of email =
     (if CHR ''@'' \<in> set email
      then takeWhile (\<lambda>c. c \<noteq> CHR ''@'') (tl (dropWhile (\<lambda>c. c \<noteq> CHR ''@'') email))
      else [])"

definition score_email_domain ::
  "pydict \<Rightarrow> string list \<Rightarrow> string list \<Rightarrow> py_error + (real \<times> string list)" where
  "score_email_domain lead_data positive_domains negative_domains =
     (case py_lower (get_or_empty lead_data ''email'') of
        Inl e \<Rightarrow> Inl e
      | Inr email \<Rightarrow>
          if email = [] then Inr (0, [''No email provided''])
          else let domain = email_domain_of email in
            if domain = [] then Inr (0, [''Invalid email format''])
            else if domain \<in> set positive_domains
              then Inr (1, [''Email domain '' @ domain @ '' is in positive list''])
            else if domain \<in> set negative_domains
              then Inr (0, [''Email domain '' @ domain @ '' is in negative list''])
            else Inr (1 / 2, [''Email domain '' @ domain @ '' is not in known lists'']))"

definition score_phone_format :: "pydict \<Rightarrow> py_error + (real \<times> string list)" where
  "score_phone_format lead_data =
     (let phone = get_or_empty lead_data ''phone'' in
      if \<not> truthy phone then Inr (0, [''No phone number provided''])
      else case phone of
        PStr s \<Rightarrow>
          (let digits_only = filter is_digit s in
           if length digits_only = 10 then Inr (1, [''Valid 10-digit phone number''])
           else if length digits_only = 11 \<and> starts_with ''1'' digits_only
             then Inr (9 / 10, [''Valid 11-digit phone number with country code''])
           else if 10 \<le> length digits_only
             then Inr (7 / 10, [''Phone number format needs verification''])
           else Inr (0, [''Invalid phone number format'']))
      | _ \<Rightarrow> Inl TypeError)"

text \<open>
  The loop over the address fields (and over the important fields of the confidence):
  each field is stripped, which raises on a value that is not a string, and counted
  when something is left.
\<close>

fun count_provided :: "pydict \<Rightarrow> string list \<Rightarrow> py_error + nat" where
  "count_provided lead_data [] = Inr 0"
| "count_provided lead_data (fld # flds) =
     (case py_strip (get_or_empty lead_data fld) of
        Inl e \<Rightarrow> Inl e
      | Inr v \<Rightarrow>
          (case count_provided lead_data flds of
             Inl e \<Rightarrow> Inl e
           | Inr n \<Rightarrow> Inr ((if v \<noteq> [] then 1 else 0) + n)))"

definition address_fields :: "string list" where
  "address_fields = [''street_address'', ''city'', ''state'', ''zip_code'']"

definition score_address_validity :: "pydict \<Rightarrow> py_error + (real \<times> string list)" where
  "score_address_validity lead_data =
     (case count_provided lead_data address_fields of
        Inl e \<Rightarrow> Inl e
      | Inr provided_fields \<Rightarrow>
          (let completeness = real provided_fields / real (length address_fields) in
           if completeness = 1 then Inr (completeness, [''Complete address provided''])
           else if 3 / 4 \<le> completeness
             then Inr (completeness, [''Nearly complete address provided''])
           else if 1 / 2 \<le> completeness
             then Inr (completeness, [''Partial address provided''])
           else Inr (completeness, [''Incomplete address provided''])))"

definition score_utm_source ::
  "pydict \<Rightarrow> string list \<Rightarrow> string list \<Rightarrow> py_error + (real \<times> string list)" where
  "score_utm_source lead_data positive_sources negative_sources =
     (case py_lower (get_or_empty lead_data ''utm_source'') of
        Inl e \<Rightarrow> Inl e
      | Inr utm_source \<Rightarrow>
          if utm_source = [] then Inr (0, [''No UTM source provided''])
          else if utm_source \<in> set positive_sources
            then Inr (1, [''UTM source '' @ utm_source @ '' is high quality''])
          else if utm_source \<in> set negative_sources
            then Inr (0, [''UTM source '' @ utm_source @ '' is low quality''])
          else Inr (1 / 2, [''UTM source '' @ utm_source @ '' is moderate quality'']))"

definition score_lead_source ::
  "pydict \<Rightarrow> string list \<Rightarrow> string list \<Rightarrow> py_error + (real \<times> string list)" where
  "score_lead_source lead_data positive_sources negative_sources =
     (case py_lower (get_or_empty lead_data ''lead_source'') of
        Inl e \<Rightarrow> Inl e
      | Inr lead_source \<Rightarrow>
          if lead_source = [] then Inr (0, [''No lead source specified''])
          else if lead_source \<in> set positive_sources
            then Inr (1, [''Lead source '' @ lead_source @ '' is high quality''])
          else if lead_source \<in> set negative_sources
            then Inr (0, [''Lead source '' @ lead_source @ '' is low quality''])
          else Inr (1 / 2, [''Lead source '' @ lead_source @ '' is moderate quality'']))"

definition score_name_completeness :: "pydict \<Rightarrow> py_error + (real \<times> string list)" where
  "score_name_completeness lead_data =
     (case py_strip (get_or_empty lead_data ''first_name'') of
        Inl e \<Rightarrow> Inl e
      | Inr first_name \<Rightarrow>
          (case py_strip (get_or_empty lead_data ''last_name'') of
             Inl e \<Rightarrow> Inl e
           | Inr last_name \<Rightarrow>
               if first_name \<noteq> [] \<and> last_name \<noteq> [] then Inr (1, [''Complete name provided''])
               else if first_name \<noteq> [] \<or> last_name \<noteq> [] then Inr (1 / 2, [''Partial name provided''])
               else Inr (0, [''No name provided''])))"

definition urgency_indicators :: "string list" where
  "urgency_indicators = [''urgent'', ''asap'', ''immediately'', ''soon'']"

text \<open>
  \<open>lead_data.get('custom_fields', {})\<close> followed by \<open>.get('concern_level', '').lower()\<close>:
  only a dict has \<open>get\<close>, only a string has \<open>lower\<close>.
\<close>

definition score_credit_concern_level :: "pydict \<Rightarrow> py_error + (real \<times> string list)" where
  "score_credit_concern_level lead_data =
     (case (case lead_data ''custom_fields'' of None \<Rightarrow> PDict [] | Some v \<Rightarrow> v) of
        PDict custom_fields \<Rightarrow>
          (case py_lower (get_or_empty (map_of custom_fields) ''concern_level'') of
             Inl e \<Rightarrow> Inl e
           | Inr concern_level \<Rightarrow>
               if list_ex (\<lambda>indicator. str_contains indicator concern_level) urgency_indicators
                 then Inr (4 / 5, [''High concern level indicated''])
               else if concern_level \<in> set [''low'', ''minor'', ''curious'']
                 then Inr (3 / 10, [''Low concern level indicated''])
               else Inr (1 / 2, []))
      | _ \<Rightarrow> Inl AttributeError)"

definition high_demand_states :: "string list" where
  "high_demand_states =
     [''CA'', ''TX'', ''FL'', ''NY'', ''PA'', ''IL'', ''OH'', ''GA'', ''NC'', ''MI'']"

definition score_demographic_fit :: "pydict \<Rightarrow> py_error + (real \<times> string list)" where
  "score_demographic_fit lead_data =
     (case py_upper (get_or_empty lead_data ''state'') of
        Inl e \<Rightarrow> Inl e
      | Inr state \<Rightarrow>
          if state \<in> set high_demand_states
            then Inr (4 / 5, [''State '' @ state @ '' has high credit repair demand''])
          else if state \<noteq> []
            then Inr (3 / 5, [''State '' @ state @ '' has moderate credit repair demand''])
          else Inr (1 / 2, [''No state information provided'']))"

text \<open>The raw score and reasoning of one criterion, by its type.\<close>

definition raw_criteria_score :: "pydict \<Rightarrow> criterion \<Rightarrow> py_error + (real \<times> string list)" where
  "raw_criteria_score lead_data c =
     (let t = criteria_type c;
          pos = values_or_empty (positive_values c);
          neg = values_or_empty (negative_values c)
      in if t = ''email_domain'' then score_email_domain lead_data pos neg
         else if t = ''phone_format'' then score_phone_format lead_data
         else if t = ''address_validity'' then score_address_validity lead_data
         else if t = ''utm_source'' then score_utm_source lead_data pos neg
         else if t = ''lead_source'' then score_lead_source lead_data pos neg
         else if t = ''name_completeness'' then score_name_completeness lead_data
         else if t = ''credit_concern_level'' then score_credit_concern_level lead_data
         else if t = ''demographic_fit'' then score_demographic_fit lead_data
         else Inr (case threshold_score c of None \<Rightarrow> 0 | Some th \<Rightarrow> th,
                   [''Unknown criteria type: '' @ t @ '', using threshold score'']))"

definition score_criteria :: "pydict \<Rightarrow> criterion \<Rightarrow> py_error + criteria_score" where
  "score_criteria lead_data c =
     (case raw_criteria_score lead_data c of
        Inl e \<Rightarrow> Inl e
      | Inr (s, r) \<Rightarrow>
          Inr \<lparr>score = s * weight c, raw_score = s, cs_weight = weight c, cs_reasoning = r\<rparr>)"

definition important_fields :: "string list" where
  "important_fields =
     [''email'', ''phone'', ''first_name'', ''last_name'', ''street_address'', ''city'',
      ''state'', ''zip_code'', ''utm_source'', ''lead_source'']"

definition calculate_confidence ::
  "pydict \<Rightarrow> (string \<times> criteria_score) list \<Rightarrow> py_error + real" where
  "calculate_confidence lead_data scores =
     (case count_provided lead_data important_fields of
        Inl e \<Rightarrow> Inl e
      | Inr data_completeness \<Rightarrow>
          (let completeness_ratio = real data_completeness / 10;
               criteria_count = length (filter (\<lambda>(k, s). 0 < raw_score s) scores);
               criteria_ratio = real criteria_count / real (max (length scores) 1);
               conf = (completeness_ratio + criteria_ratio) / 2
           in Inr (max (1 / 10) (min 1 conf))))"

text \<open>
  The loop of \<open>_calculate_lead_score\<close>. \<open>criteria_scores\<close> is a dict keyed by the
  criterion type, so a later criterion of the same type replaces the entry of an earlier
  one, while both add to the totals.
\<close>

record score_acc =
  acc_scores :: "(string \<times> criteria_score) list"
  acc_total :: real
  acc_max :: real
  acc_reasoning :: "string list"

fun score_loop :: "pydict \<Rightarrow> criterion list \<Rightarrow> score_acc \<Rightarrow> py_error + score_acc" where
  "score_loop lead_data [] acc = Inr acc"
| "score_loop lead_data (c # cs) acc =
     (case score_criteria lead_data c of
        Inl e \<Rightarrow> Inl e
      | Inr r \<Rightarrow>
          score_loop lead_data cs
            \<lparr>acc_scores = AList.update (criteria_type c) r (acc_scores acc),
             acc_total = acc_total acc + score r,
             acc_max = acc_max acc + weight c,
             acc_reasoning = acc_reasoning acc @ cs_reasoning r\<rparr>)"

definition calculate_lead_score :: "pydict \<Rightarrow> scoring_profile \<Rightarrow> py_error + score_result" where
  "calculate_lead_score lead_data profile =
     (let criteria_list = (case criteria profile of None \<Rightarrow> [] | Some cs \<Rightarrow> cs) in
      case score_loop lead_data criteria_list
             \<lparr>acc_scores = [], acc_total = 0, acc_max = 0, acc_reasoning = []\<rparr> of
        Inl e \<Rightarrow> Inl e
      | Inr acc \<Rightarrow>
          (let normalized_score =
                 (if 0 < acc_max acc then (acc_total acc / acc_max acc) * 10 else 0)
           in case calculate_confidence lead_data (acc_scores acc) of
                Inl e \<Rightarrow> Inl e
              | Inr conf \<Rightarrow>
                  Inr \<lparr>total_score = py_round2 normalized_score,
                       sr_raw_score = acc_total acc,
                       max_possible_score = acc_max acc,
                       criteria_scores = acc_scores acc,
                       confidence = conf,
                       reasoning = acc_reasoning acc\<rparr>))"

text \<open>\<open>profile.get(key, default)\<close> on a threshold.\<close>

definition threshold_or :: "real option \<Rightarrow> real \<Rightarrow> real" where
  "threshold_or t d = (case t of None \<Rightarrow> d | Some v \<Rightarrow> v)"

definition determine_qualification_status :: "score_result \<Rightarrow> scoring_profile \<Rightarrow> string" where
  "determine_qualification_status sr profile =
     (let s = total_score sr;
          conf = confidence sr;
          aq = threshold_or (auto_qualify_threshold profile) 7;
          rr = threshold_or (require_review_threshold profile) 5;
          dq = threshold_or (disqualify_threshold profile) 3;
          aq' = (if conf < 1 / 2 then aq - 1 else aq);
          rr' = (if conf < 1 / 2 then rr - 1 / 2 else rr)
      in if aq' \<le> s then ''auto_qualified''
         else if rr' \<le> s then ''review_required''
         else if s \<le> dq then ''auto_disqualified''
         else ''manual_review'')"

text \<open>
  The criterion types that \<open>_score_criteria\<close> dispatches on, and the profiles on which
  the score stays on its scale: weights are not negative, and a criterion of any other
  type (scored by its \<open>threshold_score\<close>) has that threshold in the unit interval.
\<close>

definition known_criteria_types :: "string list" where
  "known_criteria_types =
     [''email_domain'', ''phone_format'', ''address_validity'', ''utm_source'', ''lead_source'',
      ''name_completeness'', ''credit_concern_level'', ''demographic_fit'']"

definition criterion_in_range :: "criterion \<Rightarrow> bool" where
  "criterion_in_range c =
     (0 \<le> weight c \<and>
      (criteria_type c \<in> set known_criteria_types \<or>
       (case threshold_score c of None \<Rightarrow> True | Some th \<Rightarrow> 0 \<le> th \<and> th \<le> 1)))"

text \<open>
  A fact is missing from a record when its key is absent or holds the empty string.
\<close>

definition missing :: "pydict \<Rightarrow> string \<Rightarrow> bool" where
  "missing d k = (d k = None \<or> d k = Some (PStr []))"

text \<open>The fields the confidence reads all hold strings where they are present.\<close>

definition string_valued :: "pydict \<Rightarrow> string list \<Rightarrow> bool" where
  "string_valued d ks =
     list_all (\<lambda>k. case d k of None \<Rightarrow> True | Some (PStr s) \<Rightarrow> True | Some _ \<Rightarrow> False) ks"

text \<open>
  The concern level is missing when \<open>custom_fields\<close> is absent, or is a dict in which
  \<open>concern_level\<close> is missing.
\<close>

definition concern_level_missing :: "pydict \<Rightarrow> bool" where
  "concern_level_missing d =
     (case d ''custom_fields'' of
        None \<Rightarrow> True
      | Some (PDict cf) \<Rightarrow> missing (map_of cf) ''concern_level''
      | Some _ \<Rightarrow> False)"

section \<open>Churn prediction (services/churn\_prediction.py)\<close>

record risk_factor =
  factor_name :: string
  rf_weight :: "real option"
  impact_score :: "real option"
  rf_risk_level :: string

text \<open>\<open>factor.get('weight', 1.0)\<close> and \<open>factor.get('impact_score', 0.5)\<close>.\<close>

definition weight_of :: "risk_factor \<Rightarrow> real" where
  "weight_of f = (case rf_weight f of None \<Rightarrow> 1 | Some w \<Rightarrow> w)"

definition impact_of :: "risk_factor \<Rightarrow> real" where
  "impact_of f = (case impact_score f of None \<Rightarrow> 1 / 2 | Some i \<Rightarrow> i)"

text \<open>
  \<open>_calculate_churn_probability\<close> reads only the risk factors (its \<open>client\<close> and
  \<open>client_history\<close> arguments are not used). In the loop the running pair is (total
  weighted risk, total weight).
\<close>

fun risk_loop :: "risk_factor list \<Rightarrow> real \<times> real \<Rightarrow> real \<times> real" where
  "risk_loop [] acc = acc"
| "risk_loop (f # fs) (total_weighted_risk, total_weight) =
     risk_loop fs (total_weighted_risk + impact_of f * weight_of f, total_weight + weight_of f)"

definition calculate_churn_probability :: "risk_factor list \<Rightarrow> real" where
  "calculate_churn_probability risk_factors =
     (if risk_factors = [] then 1 / 2
      else let (total_weighted_risk, total_weight) = risk_loop risk_factors (0, 0) in
        if total_weight = 0 then 1 / 2
        else let normalized_risk = total_weighted_risk / total_weight;
                 probability = 1 / (1 + exp (- 6 * (normalized_risk - 1 / 2)))
             in max 0 (min 1 probability))"

definition determine_risk_level :: "real \<Rightarrow> string" where
  "determine_risk_level churn_probability =
     (if 7 / 10 \<le> churn_probability then ''critical''
      else if 1 / 2 \<le> churn_probability then ''high''
      else if 3 / 10 \<le> churn_probability then ''medium''
      else ''low'')"

text \<open>
  The quantities the specification speaks of: the sum of the weights, and the aggregate
  normalized weighted risk (the sum of impact times weight, over the sum of the weights).
  The severity order of the risk levels is low, medium, high, critical.
\<close>

definition total_weight_of :: "risk_factor list \<Rightarrow> real" where
  "total_weight_of fs = sum_list (map weight_of fs)"

definition aggregate_risk :: "risk_factor list \<Rightarrow> real" where
  "aggregate_risk fs = sum_list (map (\<lambda>f. impact_of f * weight_of f) fs) / total_weight_of fs"

definition risk_rank :: "string \<Rightarrow> nat" where
  "risk_rank l = (if l = ''critical'' then 3 else if l = ''high'' then 2
                  else if l = ''medium'' then 1 else 0)"

section \<open>Bureau targeting (services/automation.py)\<close>

record targeting_criteria =
  dispute_types :: "string list option"
  account_keywords :: "string list option"
  max_avg_disputes :: "real option"

record targeting_rule =
  rule_name :: "string option"
  rule_type :: "string option"
  rule_criteria :: "targeting_criteria option"
  recommended_bureaus :: "string list option"
  confidence_score :: "real option"
  success_history :: "real option"
  total_applications :: "real option"

record recommendation =
  bureaus :: "string list"
  rec_confidence :: real
  rec_rule_name :: string
  alternatives :: "string list"
  rec_reasoning :: "string list"

text \<open>
  The client history is an optional dict of numbers; \<open>if client_history\<close> holds for a
  dict that is there and not empty.
\<close>

type_synonym client_history = "(string \<times> real) list option"

definition calculate_rule_relevance ::
  "targeting_rule \<Rightarrow> pydict \<Rightarrow> client_history \<Rightarrow> py_error + real" where
  "calculate_rule_relevance rule dispute_data history =
     (let rt = (case rule_type rule of None \<Rightarrow> [] | Some t \<Rightarrow> t);
          crit = (case rule_criteria rule of
                    None \<Rightarrow> \<lparr>dispute_types = None, account_keywords = None,
                               max_avg_disputes = None\<rparr>
                  | Some c \<Rightarrow> c);
          success_rate =
            (case success_history rule of None \<Rightarrow> 0 | Some h \<Rightarrow> h)
              / max (case total_applications rule of None \<Rightarrow> 1 | Some n \<Rightarrow> n) 1;
          finish = (\<lambda>relevance. Inr (min (relevance + success_rate * (3 / 10)) 1))
      in if rt = ''dispute_type_based'' then
           finish (case dispute_data ''dispute_type'' of
                     Some (PStr t) \<Rightarrow>
                       if t \<in> set (values_or_empty (dispute_types crit)) then 4 / 5 else 0
                   | _ \<Rightarrow> 0)
         else if rt = ''account_based'' then
           (case py_lower (get_or_empty dispute_data ''account_name'') of
              Inl e \<Rightarrow> Inl e
            | Inr account_name \<Rightarrow>
                finish (if list_ex (\<lambda>keyword. str_contains (str_lower keyword) account_name)
                             (values_or_empty (account_keywords crit))
                        then 3 / 5 else 0))
         else if rt = ''client_history_based'' then
           finish (case history of
                     None \<Rightarrow> 0
                   | Some h \<Rightarrow>
                       if h = [] then 0
                       else if (case map_of h ''avg_disputes_per_month'' of None \<Rightarrow> 0 | Some a \<Rightarrow> a)
                               < (case max_avg_disputes crit of None \<Rightarrow> 10 | Some m \<Rightarrow> m)
                       then 2 / 5 else 0)
         else finish 0)"

definition get_alternative_bureaus :: "string list \<Rightarrow> string list" where
  "get_alternative_bureaus recommended =
     (let all_bureaus = [''equifax'', ''experian'', ''transunion''] in
      if ''all'' \<in> set recommended then all_bureaus
      else filter (\<lambda>b. b \<notin> set recommended) all_bureaus)"

text \<open>The search for the most relevant rule: the running pair is (best rule, best score).\<close>

fun best_rule_loop ::
  "targeting_rule list \<Rightarrow> pydict \<Rightarrow> client_history \<Rightarrow> targeting_rule option \<times> real
     \<Rightarrow> py_error + (targeting_rule option \<times> real)" where
  "best_rule_loop [] dispute_data history acc = Inr acc"
| "best_rule_loop (rule # rules) dispute_data history (best_rule, best_score) =
     (case calculate_rule_relevance rule dispute_data history of
        Inl e \<Rightarrow> Inl e
      | Inr s \<Rightarrow>
          best_rule_loop rules dispute_data history
            (if best_score < s then (Some rule, s) else (best_rule, best_score)))"

definition apply_targeting_rules ::
  "pydict \<Rightarrow> targeting_rule list \<Rightarrow> client_history \<Rightarrow> py_error + recommendation" where
  "apply_targeting_rules dispute_data rules history =
     (if rules = [] then
        Inr \<lparr>bureaus = [''all''], rec_confidence = 3 / 5, rec_rule_name = ''default_all_bureaus'',
             alternatives = [''equifax'', ''experian'', ''transunion''],
             rec_reasoning = [''Default recommendation - target all bureaus'']\<rparr>
      else case best_rule_loop rules dispute_data history (None, 0) of
        Inl e \<Rightarrow> Inl e
      | Inr (None, best_score) \<Rightarrow>
          Inr \<lparr>bureaus = [''all''], rec_confidence = 1 / 2, rec_rule_name = ''fallback_default'',
               alternatives = [''equifax'', ''experian'', ''transunion''],
               rec_reasoning = [''No specific rule matched, using safe default'']\<rparr>
      | Inr (Some best_rule, best_score) \<Rightarrow>
          if best_score < 3 / 10 then
            Inr \<lparr>bureaus = [''all''], rec_confidence = 1 / 2, rec_rule_name = ''fallback_default'',
                 alternatives = [''equifax'', ''experian'', ''transunion''],
                 rec_reasoning = [''No specific rule matched, using safe default'']\<rparr>
          else
            (let rb = (case recommended_bureaus best_rule of None \<Rightarrow> [''all''] | Some b \<Rightarrow> b);
                 nm = (case rule_name best_rule of None \<Rightarrow> ''unknown'' | Some n \<Rightarrow> n)
             in Inr \<lparr>bureaus = rb,
                     rec_confidence = (case confidence_score best_rule of None \<Rightarrow> 1 / 2 | Some c \<Rightarrow> c),
                     rec_rule_name = nm,
                     alternatives = get_alternative_bureaus rb,
                     rec_reasoning = [''Applied rule: '' @ nm]\<rparr>))"

text \<open>
  \<open>recommend_bureaus\<close>, given the rules the query returned: anything raised while the
  rules are applied is caught and answered by the safe default.
\<close>

definition recommend_bureaus ::
  "pydict \<Rightarrow> targeting_rule list \<Rightarrow> client_history \<Rightarrow> recommendation" where
  "recommend_bureaus dispute_data rules history =
     (case apply_targeting_rules dispute_data rules history of
        Inr r \<Rightarrow> r
      | Inl e \<Rightarrow>
          \<lparr>bureaus = [''all''], rec_confidence = 1 / 2, rec_rule_name = ''default'',
           alternatives = [''equifax'', ''experian'', ''transunion''],
           rec_reasoning = [''Default fallback recommendation'']\<rparr>)"

section \<open>Round scheduling (services/automation.py)\<close>

text \<open>
  A datetime is a number of seconds on the real line; \<open>timedelta(days=d)\<close> is \<open>86400 d\<close>
  seconds and \<open>timedelta(hours=h)\<close> is \<open>3600 h\<close> seconds.
\<close>

type_synonym datetime = real

definition timedelta_days :: "real \<Rightarrow> real" where
  "timedelta_days d = 86400 * d"

definition timedelta_hours :: "real \<Rightarrow> real" where
  "timedelta_hours h = 3600 * h"

record scheduled_round =
  next_round :: int
  scheduled_date :: datetime
  rule_applied :: string
  follow_up_strategy :: string
  task_id :: "string option"
  estimated_success_probability :: real

text \<open>
  \<open>_apply_default_scheduling\<close>, which \<open>schedule_next_round\<close> returns when no scheduling
  rule is found for the next round; \<open>now\<close> is the reading of \<open>datetime.utcnow()\<close>.
\<close>

definition apply_default_scheduling :: "datetime \<Rightarrow> pydict \<Rightarrow> int \<Rightarrow> scheduled_round" where
  "apply_default_scheduling now dispute_data nr =
     (let base_delay = 30 + (nr - 1) * 15 in
      \<lparr>next_round = nr,
       scheduled_date = now + timedelta_days (of_int base_delay),
       rule_applied = ''default_progressive'',
       follow_up_strategy = ''standard'',
       task_id = None,
       estimated_success_probability = max (1 / 10) (4 / 5 - of_int nr * (1 / 10))\<rparr>)"

definition type_modifiers :: "(string \<times> real) list" where
  "type_modifiers =
     [(''inquiry'', 11 / 10), (''late_payment'', 9 / 10), (''collection'', 7 / 10),
      (''charge_off'', 3 / 5)]"

text \<open>
  \<open>_estimate_success_probability\<close>, reported on the path where a rule exists. A dict is
  not hashable as a key of \<open>type_modifiers\<close>, and only a number can be multiplied by 0.4.
\<close>

definition estimate_success_probability :: "pydict \<Rightarrow> int \<Rightarrow> py_error + real" where
  "estimate_success_probability dispute_data round_number =
     (let base_prob = max (1 / 10) (7 / 10 - of_int (round_number - 1) * (1 / 10)) in
      case (case get_or_empty dispute_data ''dispute_type'' of
              PStr t \<Rightarrow> Inr (case map_of type_modifiers t of None \<Rightarrow> 1 | Some m \<Rightarrow> m)
            | PDict d \<Rightarrow> Inl TypeError
            | _ \<Rightarrow> Inr 1) of
        Inl e \<Rightarrow> Inl e
      | Inr modifier \<Rightarrow>
          (case (case dispute_data ''client_responsiveness_score'' of
                   None \<Rightarrow> Inr (1 / 2)
                 | Some (PNum x) \<Rightarrow> Inr x
                 | Some _ \<Rightarrow> Inl TypeError) of
             Inl e \<Rightarrow> Inl e
           | Inr client_responsiveness \<Rightarrow>
               (let responsiveness_modifier = 4 / 5 + client_responsiveness * (2 / 5);
                    estimated_prob = base_prob * modifier * responsiveness_modifier
                in Inr (max (1 / 20) (min (19 / 20) estimated_prob)))))"

section \<open>Payment retry (services/automation.py)\<close>

record amount_tier =
  min_amount :: "real option"
  max_amount :: "real option"
  tier_strategy :: "string option"
  delay_multiplier :: "real option"

record retry_config =
  cfg_strategy :: "string option"
  initial_delay_hours :: "real option"
  amount_tiers :: "(string \<times> amount_tier) list option"

record payment_attempt =
  retry_count :: "int option"
  amount_cents :: "int option"

record retry_strategy =
  rs_retry_count :: int
  next_retry_date :: datetime
  rs_strategy :: string
  amount_to_charge :: int
  payment_method :: string
  success_rate :: real

definition create_default_config :: retry_config where
  "create_default_config =
     \<lparr>cfg_strategy = Some ''exponential'',
      initial_delay_hours = Some 24,
      amount_tiers = Some
        [(''low'', \<lparr>min_amount = None, max_amount = Some 100, tier_strategy = Some ''fixed'',
                    delay_multiplier = Some (1 / 2)\<rparr>),
         (''medium'', \<lparr>min_amount = Some 100, max_amount = Some 500,
                       tier_strategy = Some ''linear'', delay_multiplier = Some 1\<rparr>),
         (''high'', \<lparr>min_amount = Some 500, max_amount = None,
                     tier_strategy = Some ''exponential'', delay_multiplier = Some (3 / 2)\<rparr>)]\<rparr>"

text \<open>
  The tiers are tried in the order of the dict; a missing \<open>max_amount\<close> stands for
  infinity. With no tier in range, the medium tier (or a plain exponential one) is taken.
\<close>

fun find_tier :: "real \<Rightarrow> (string \<times> amount_tier) list \<Rightarrow> amount_tier option" where
  "find_tier amount [] = None"
| "find_tier amount ((tier_name, tier_config) # rest) =
     (if (case min_amount tier_config of None \<Rightarrow> 0 | Some m \<Rightarrow> m) \<le> amount
         \<and> (case max_amount tier_config of None \<Rightarrow> True | Some m \<Rightarrow> amount < m)
      then Some tier_config else find_tier amount rest)"

definition get_amount_tier :: "real \<Rightarrow> (string \<times> amount_tier) list \<Rightarrow> amount_tier" where
  "get_amount_tier amount tiers =
     (case find_tier amount tiers of
        Some t \<Rightarrow> t
      | None \<Rightarrow>
          (case map_of tiers ''medium'' of
             Some t \<Rightarrow> t
           | None \<Rightarrow> \<lparr>min_amount = None, max_amount = None,
                       tier_strategy = Some ''exponential'', delay_multiplier = Some 1\<rparr>))"

definition estimate_success_rate :: "int \<Rightarrow> string \<Rightarrow> real \<Rightarrow> real" where
  "estimate_success_rate rc strategy amount =
     (let k = min rc 3;
          base_rate = (if k = 0 then 7 / 10 else if k = 1 then 1 / 2
                       else if k = 2 then 3 / 10 else if k = 3 then 1 / 5 else 1 / 10);
          strategy_modifier = (if strategy = ''exponential'' then 9 / 10
                               else if strategy = ''linear'' then 1
                               else if strategy = ''fixed'' then 11 / 10 else 1);
          amount_modifier = max (1 / 2) (6 / 5 - amount / 1000);
          estimated_rate = base_rate * strategy_modifier * amount_modifier
      in max (1 / 20) (min (19 / 20) estimated_rate))"

text \<open>
  \<open>2 ** retry_count\<close> on an integer exponent. The strategy record leaves out the
  dunning step, which is a table lookup by the retry count and enters no computation.
\<close>

definition pow2 :: "int \<Rightarrow> real" where
  "pow2 n = (if 0 \<le> n then 2 ^ nat n else 1 / 2 ^ nat (- n))"

definition calculate_retry_strategy ::
  "datetime \<Rightarrow> payment_attempt \<Rightarrow> retry_config \<Rightarrow> retry_strategy" where
  "calculate_retry_strategy now payment_data config =
     (let rc = (case retry_count payment_data of None \<Rightarrow> 0 | Some n \<Rightarrow> n);
          cents = (case amount_cents payment_data of None \<Rightarrow> 0 | Some a \<Rightarrow> a);
          amount_dollars = of_int cents / 100;
          tier = get_amount_tier amount_dollars
                   (case amount_tiers config of None \<Rightarrow> [] | Some ts \<Rightarrow> ts);
          initial_delay = (case initial_delay_hours config of None \<Rightarrow> 24 | Some d \<Rightarrow> d);
          strategy = (case tier_strategy tier of
                        Some st \<Rightarrow> st
                      | None \<Rightarrow> (case cfg_strategy config of None \<Rightarrow> ''exponential'' | Some st \<Rightarrow> st));
          multiplier = (case delay_multiplier tier of None \<Rightarrow> 1 | Some m \<Rightarrow> m);
          delay_hours =
            (if strategy = ''exponential'' then initial_delay * pow2 rc * multiplier
             else if strategy = ''linear'' then initial_delay * of_int (rc + 1) * multiplier
             else initial_delay * multiplier)
      in \<lparr>rs_retry_count = rc + 1,
          next_retry_date = now + timedelta_hours delay_hours,
          rs_strategy = strategy,
          amount_to_charge = cents,
          payment_method = ''same_as_failed'',
          success_rate = estimate_success_rate rc strategy amount_dollars\<rparr>)"

section \<open>Dunning sequence (services/automation.py)\<close>

text \<open>
  The tables behind \<open>process_dunning_sequence\<close>, restricted to one failed payment of one
  organization: the rows of \<open>dunning_sequence_states\<close>, the organization's rows of
  \<open>dunning_sequences\<close>, and the \<open>amount_cents\<close> of the payment row (if both exist). An
  insert returns the row it stored, and every row holds the keys the code indexes, so the
  handler that turns an exception into the action \<open>error\<close> is never entered. The e-mail
  itself is a mock in the source and leaves no trace in the tables.
\<close>

record step_conditions =
  delay_hours :: "real option"
  cond_min_amount :: "real option"

record dunning_step =
  step_number :: int
  step_active :: bool
  step_conditions :: "step_conditions option"
  email_template_key :: string
  is_final :: "bool option"

record sequence_state =
  current_step :: int
  seq_status :: string
  started_at :: datetime
  last_step_at :: "datetime option"

record dunning_db =
  seq_states :: "sequence_state list"
  seq_steps :: "dunning_step list"
  payment_amount_cents :: "real option"

datatype dunning_result =
    Sequence_complete
  | Email_sent int string bool
  | Wait datetime

definition get_sequence_state :: "dunning_db \<Rightarrow> sequence_state option" where
  "get_sequence_state db = find (\<lambda>s. seq_status s = ''active'') (seq_states db)"

definition start_new_sequence :: "datetime \<Rightarrow> dunning_db \<Rightarrow> sequence_state \<times> dunning_db" where
  "start_new_sequence now db =
     (let row = \<lparr>current_step = 0, seq_status = ''active'', started_at = now,
                 last_step_at = None\<rparr>
      in (row, db\<lparr>seq_states := seq_states db @ [row]\<rparr>))"

definition get_next_sequence_step :: "int \<Rightarrow> dunning_db \<Rightarrow> dunning_step option" where
  "get_next_sequence_step n db =
     find (\<lambda>st. step_number st = n \<and> step_active st) (seq_steps db)"

definition check_time_condition :: "datetime \<Rightarrow> sequence_state \<Rightarrow> real \<Rightarrow> bool" where
  "check_time_condition now st required_hours =
     (let start_time = (case last_step_at st of None \<Rightarrow> started_at st | Some t \<Rightarrow> t)
      in required_hours * 3600 \<le> now - start_time)"

definition should_trigger_step ::
  "datetime \<Rightarrow> dunning_step \<Rightarrow> sequence_state \<Rightarrow> dunning_db \<Rightarrow> bool" where
  "should_trigger_step now step st db =
     (let conds = (case step_conditions step of
                     None \<Rightarrow> \<lparr>delay_hours = None, cond_min_amount = None\<rparr>
                   | Some c \<Rightarrow> c)
      in if (case delay_hours conds of
               None \<Rightarrow> False
             | Some h \<Rightarrow> \<not> check_time_condition now st h) then False
         else if (case cond_min_amount conds of
                    None \<Rightarrow> False
                  | Some m \<Rightarrow>
                      (case payment_amount_cents db of None \<Rightarrow> 0 | Some a \<Rightarrow> a) < m * 100)
           then False
         else True)"

definition update_sequence_state :: "datetime \<Rightarrow> int \<Rightarrow> dunning_db \<Rightarrow> dunning_db" where
  "update_sequence_state now n db =
     db\<lparr>seq_states := map (\<lambda>s. s\<lparr>current_step := n, last_step_at := Some now\<rparr>) (seq_states db)\<rparr>"

definition get_next_check_date :: "datetime \<Rightarrow> dunning_step \<Rightarrow> datetime" where
  "get_next_check_date now step =
     now + timedelta_hours
       (case step_conditions step of
          None \<Rightarrow> 24
        | Some c \<Rightarrow> (case delay_hours c of None \<Rightarrow> 24 | Some h \<Rightarrow> h))"

definition process_dunning_sequence ::
  "datetime \<Rightarrow> dunning_db \<Rightarrow> dunning_result \<times> dunning_db" where
  "process_dunning_sequence now db =
     (let (st, db1) = (case get_sequence_state db of
                         Some s \<Rightarrow> (s, db)
                       | None \<Rightarrow> start_new_sequence now db)
      in case get_next_sequence_step (current_step st + 1) db1 of
           None \<Rightarrow> (Sequence_complete, db1)
         | Some next_step \<Rightarrow>
             if should_trigger_step now next_step st db1
             then (Email_sent (step_number next_step) (email_template_key next_step)
                     (case is_final next_step of None \<Rightarrow> False | Some b \<Rightarrow> b),
                   update_sequence_state now (step_number next_step) db1)
             else (Wait (get_next_check_date now next_step), db1))"

text \<open>
  Successive calls, one at each of the given times, each on the tables the previous call
  left: the list of (result, tables after the call).
\<close>

fun run_dunning :: "datetime list \<Rightarrow> dunning_db \<Rightarrow> (dunning_result \<times> dunning_db) list" where
  "run_dunning [] db = []"
| "run_dunning (t # ts) db =
     (let (r, db') = process_dunning_sequence t db in (r, db') # run_dunning ts db')"

text \<open>The step numbers of the e-mails sent, and the step the active sequence stands at.\<close>

fun sent_step :: "dunning_result \<Rightarrow> int list" where
  "sent_step (Email_sent n k f) = [n]"
| "sent_step _ = []"

definition sent_steps :: "(dunning_result \<times> dunning_db) list \<Rightarrow> int list" where
  "sent_steps tr = concat (map (sent_step \<circ> fst) tr)"

definition step_of :: "dunning_db \<Rightarrow> int" where
  "step_of db = (case get_sequence_state db of None \<Rightarrow> 0 | Some s \<Rightarrow> current_step s)"

text \<open>The next step is configured, and its trigger conditions are not met at \<open>now\<close>.\<close>

definition conditions_unmet :: "datetime \<Rightarrow> dunning_db \<Rightarrow> bool" where
  "conditions_unmet now db =
     (case get_sequence_state db of
        None \<Rightarrow> False
      | Some st \<Rightarrow>
          (case get_next_sequence_step (current_step st + 1) db of
             None \<Rightarrow> False
           | Some next_step \<Rightarrow> \<not> should_trigger_step now next_step st db))"

fun is_wait :: "dunning_result \<Rightarrow> bool" where
  "is_wait (Wait d) = True"
| "is_wait _ = False"

text \<open>
  The tables of the specification's example: a sequence started at time 0 and standing at
  step 0, a first step due after 24 hours and a final second step due 48 hours later for
  payments of at least 20 dollars, and a failed payment of 50 dollars.
\<close>

definition example_dunning_db :: dunning_db where
  "example_dunning_db =
     \<lparr>seq_states = [\<lparr>current_step = 0, seq_status = ''active'', started_at = 0,
                      last_step_at = None\<rparr>],
      seq_steps = [\<lparr>step_number = 1, step_active = True,
                     step_conditions = Some \<lparr>delay_hours = Some 24, cond_min_amount = None\<rparr>,
                     email_template_key = ''payment_failed_1'', is_final = None\<rparr>,
                   \<lparr>step_number = 2, step_active = True,
                     step_conditions = Some \<lparr>delay_hours = Some 48, cond_min_amount = Some 20\<rparr>,
                     email_template_key = ''payment_failed_2'', is_final = Some True\<rparr>],
      payment_amount_cents = Some 5000\<rparr>"

text \<open>The same tables before the first call for the payment: no sequence state yet.\<close>

definition example_fresh_dunning_db :: dunning_db where
  "example_fresh_dunning_db = example_dunning_db\<lparr>seq_states := []\<rparr>"

section \<open>Properties of lead scoring\<close>

lemmas string_eval = str_lower_def str_upper_def str_strip_def lower_char_def upper_char_def
  is_space_def is_digit_def email_domain_of_def get_or_empty_def values_or_empty_def

lemma py_round2_bounds:
  assumes "0 \<le> x" "x \<le> 10"
  shows "0 \<le> py_round2 x \<and> py_round2 x \<le> 10"
proof -
  define y where "y = x * 100"
  define f where "f = \<lfloor>y\<rfloor>"
  define g where "g = (if y - of_int f < 1 / 2 then f else if 1 / 2 < y - of_int f then f + 1
                 else if even f then f else f + 1)"
  have y: "0 \<le> y" "y \<le> 1000" using assms by (simp_all add: y_def)
  have f0: "0 \<le> f" using y by (simp add: f_def)
  have f1: "f \<le> 1000" using y unfolding f_def by (simp add: floor_le_iff)
  have up: "f + 1 \<le> 1000" if "0 < y - of_int f"
  proof -
    have "of_int f < y" using that by simp
    then have "of_int f < (1000::real)" using y by linarith
    then have "f < 1000" by linarith
    then show ?thesis by simp
  qed
  have r: "py_round2 x = of_int g / 100"
    by (simp add: py_round2_def Let_def y_def f_def g_def)
  have g0: "0 \<le> g" using f0 by (simp add: g_def)
  have g1: "g \<le> 1000" using f1 up by (auto simp: g_def)
  have "(0::real) \<le> of_int g" using g0 by simp
  moreover have "of_int g \<le> (1000::real)" using g1 by linarith
  ultimately show ?thesis unfolding r by simp
qed

lemma count_provided_le:
  "count_provided lead_data fs = Inr n \<Longrightarrow> n \<le> length fs"
  by (induction fs arbitrary: n) (auto split: sum.splits if_splits)

lemma score_email_domain_bounds:
  "score_email_domain l p n = Inr (s, r) \<Longrightarrow> 0 \<le> s \<and> s \<le> 1"
  by (auto simp: score_email_domain_def Let_def split: sum.splits if_splits)

lemma score_phone_format_bounds:
  "score_phone_format l = Inr (s, r) \<Longrightarrow> 0 \<le> s \<and> s \<le> 1"
  by (auto simp: score_phone_format_def Let_def split: pyval.splits if_splits)

lemma score_address_validity_bounds:
  assumes "score_address_validity l = Inr (s, r)"
  shows "0 \<le> s \<and> s \<le> 1"
proof -
  obtain n where n: "count_provided l address_fields = Inr n" and s: "s = real n / 4"
    using assms
    by (auto simp: score_address_validity_def Let_def address_fields_def
        split: sum.splits if_splits)
  have "n \<le> 4" using count_provided_le[OF n] by (simp add: address_fields_def)
  then show ?thesis using s by simp
qed

lemma score_utm_source_bounds:
  "score_utm_source l p n = Inr (s, r) \<Longrightarrow> 0 \<le> s \<and> s \<le> 1"
  by (auto simp: score_utm_source_def split: sum.splits if_splits)

lemma score_lead_source_bounds:
  "score_lead_source l p n = Inr (s, r) \<Longrightarrow> 0 \<le> s \<and> s \<le> 1"
  by (auto simp: score_lead_source_def split: sum.splits if_splits)

lemma score_name_completeness_bounds:
  "score_name_completeness l = Inr (s, r) \<Longrightarrow> 0 \<le> s \<and> s \<le> 1"
  by (auto simp: score_name_completeness_def split: sum.splits if_splits)

lemma score_credit_concern_level_bounds:
  "score_credit_concern_level l = Inr (s, r) \<Longrightarrow> 0 \<le> s \<and> s \<le> 1"
  by (auto simp: score_credit_concern_level_def
      split: sum.splits if_splits pyval.splits option.splits)

lemma score_demographic_fit_bounds:
  "score_demographic_fit l = Inr (s, r) \<Longrightarrow> 0 \<le> s \<and> s \<le> 1"
  by (auto simp: score_demographic_fit_def split: sum.splits if_splits)

lemmas scorer_bounds = score_email_domain_bounds score_phone_format_bounds
  score_address_validity_bounds score_utm_source_bounds score_lead_source_bounds
  score_name_completeness_bounds score_credit_concern_level_bounds score_demographic_fit_bounds

lemma raw_criteria_score_bounds:
  assumes "criterion_in_range c" "raw_criteria_score l c = Inr (s, r)"
  shows "0 \<le> s \<and> s \<le> 1"
  using assms
  unfolding raw_criteria_score_def Let_def criterion_in_range_def known_criteria_types_def
  by (auto split: if_splits option.splits dest: scorer_bounds)

lemma score_criteria_bounds:
  assumes "criterion_in_range c" "score_criteria l c = Inr r"
  shows "0 \<le> score r \<and> score r \<le> weight c"
proof -
  obtain s rs where raw: "raw_criteria_score l c = Inr (s, rs)" and r: "score r = s * weight c"
    using assms(2) by (auto simp: score_criteria_def split: sum.splits)
  have s: "0 \<le> s" "s \<le> 1" using raw_criteria_score_bounds[OF assms(1) raw] by simp_all
  have w: "0 \<le> weight c" using assms(1) by (simp add: criterion_in_range_def)
  have "s * weight c \<le> 1 * weight c" using s w by (intro mult_right_mono) simp_all
  then show ?thesis using r s w by simp
qed

lemma score_loop_inv:
  assumes "\<forall>c \<in> set cs. criterion_in_range c" "0 \<le> acc_total acc" "acc_total acc \<le> acc_max acc"
    "score_loop l cs acc = Inr acc'"
  shows "0 \<le> acc_total acc' \<and> acc_total acc' \<le> acc_max acc'"
  using assms
proof (induction cs arbitrary: acc)
  case Nil
  then show ?case by simp
next
  case (Cons c cs)
  obtain r where r: "score_criteria l c = Inr r"
    using Cons.prems(4) by (cases "score_criteria l c") simp_all
  define acc2 where "acc2 = \<lparr>acc_scores = AList.update (criteria_type c) r (acc_scores acc),
             acc_total = acc_total acc + score r,
             acc_max = acc_max acc + weight c,
             acc_reasoning = acc_reasoning acc @ cs_reasoning r\<rparr>"
  have rest: "score_loop l cs acc2 = Inr acc'"
    using Cons.prems(4) r by (simp add: acc2_def)
  have c: "criterion_in_range c" using Cons.prems(1) by simp
  have b: "0 \<le> score r" "score r \<le> weight c"
    using score_criteria_bounds[OF c r] by simp_all
  have t: "0 \<le> acc_total acc2" using Cons.prems(2) b by (simp add: acc2_def)
  have m: "acc_total acc2 \<le> acc_max acc2" using Cons.prems(3) b by (simp add: acc2_def)
  have a: "\<forall>c \<in> set cs. criterion_in_range c" using Cons.prems(1) by simp
  show ?case by (rule Cons.IH[OF a t m rest])
qed

lemma clamp_confidence:
  fixes x :: real
  shows "1 / 10 \<le> max (1 / 10) (min 1 x) \<and> max (1 / 10) (min 1 x) \<le> 1"
  by (simp add: max_def min_def)

lemma calculate_confidence_bounds:
  assumes "calculate_confidence l scs = Inr c"
  shows "1 / 10 \<le> c \<and> c \<le> 1"
proof -
  obtain x :: real where "c = max (1 / 10) (min 1 x)"
    using assms unfolding calculate_confidence_def Let_def
    by (cases "count_provided l important_fields") auto
  then show ?thesis using clamp_confidence by simp
qed

lemma normalized_bounds:
  fixes t m :: real
  assumes "0 \<le> t" "t \<le> m"
  shows "0 \<le> (if 0 < m then (t / m) * 10 else 0) \<and> (if 0 < m then (t / m) * 10 else 0) \<le> 10"
  using assms by (simp add: divide_le_eq)

text \<open>
  Where the score does stay on its scale. For every lead record and every scoring profile
  whose criteria have weights that are not negative and, where the criterion type is not
  one the engine knows, a threshold score in the unit interval: every score result the
  engine produces has its normalized score in [0, 10] and its confidence in [0.1, 1]. The
  confidence bound needs no condition on the profile.
\<close>

theorem lead_score_in_range:
  assumes "list_all criterion_in_range (case criteria profile of None \<Rightarrow> [] | Some cs \<Rightarrow> cs)"
    and "calculate_lead_score lead_data profile = Inr r"
  shows "0 \<le> total_score r \<and> total_score r \<le> 10 \<and> 1 / 10 \<le> confidence r \<and> confidence r \<le> 1"
proof -
  define cl where "cl = (case criteria profile of None \<Rightarrow> [] | Some cs \<Rightarrow> cs)"
  define acc0 where "acc0 = \<lparr>acc_scores = [], acc_total = 0, acc_max = 0, acc_reasoning = []\<rparr>"
  obtain acc where loop: "score_loop lead_data cl acc0 = Inr acc"
    using assms(2) unfolding calculate_lead_score_def Let_def cl_def acc0_def
    by (cases "score_loop lead_data (case criteria profile of None \<Rightarrow> [] | Some cs \<Rightarrow> cs)
          \<lparr>acc_scores = [], acc_total = 0, acc_max = 0, acc_reasoning = []\<rparr>") simp_all
  obtain conf where conf: "calculate_confidence lead_data (acc_scores acc) = Inr conf"
    using assms(2) loop unfolding calculate_lead_score_def Let_def cl_def acc0_def
    by (cases "calculate_confidence lead_data (acc_scores acc)") simp_all
  have r: "total_score r = py_round2 (if 0 < acc_max acc then (acc_total acc / acc_max acc) * 10 else 0)"
       "confidence r = conf"
    using assms(2) loop conf unfolding calculate_lead_score_def Let_def cl_def acc0_def
    by auto
  have inv: "0 \<le> acc_total acc \<and> acc_total acc \<le> acc_max acc"
    by (rule score_loop_inv[OF _ _ _ loop]) (use assms(1) in \<open>simp_all add: cl_def acc0_def list_all_iff\<close>)
  have n: "0 \<le> (if 0 < acc_max acc then (acc_total acc / acc_max acc) * 10 else 0)
      \<and> (if 0 < acc_max acc then (acc_total acc / acc_max acc) * 10 else 0) \<le> 10"
    using inv normalized_bounds by blast
  have "0 \<le> total_score r \<and> total_score r \<le> 10"
    unfolding r using py_round2_bounds n by blast
  then show ?thesis
    using calculate_confidence_bounds[OF conf] r(2) by simp
qed

theorem lead_score_in_range_witness:
  "list_all criterion_in_range (case criteria
        \<lparr>criteria = Some [\<lparr>criteria_type = ''email_domain'', weight = 2, positive_values = Some [''gmail.com''], negative_values = None, threshold_score = Some 1\<rparr>,
                          \<lparr>criteria_type = ''phone_format'', weight = 3 / 2, positive_values = None, negative_values = None, threshold_score = Some 1\<rparr>],
         auto_qualify_threshold = None, require_review_threshold = None, disqualify_threshold = None\<rparr>
       of None \<Rightarrow> [] | Some cs \<Rightarrow> cs)
   \<and> calculate_lead_score [''email'' \<mapsto> PStr ''a@gmail.com'', ''phone'' \<mapsto> PStr ''555-123-4567'']
        \<lparr>criteria = Some [\<lparr>criteria_type = ''email_domain'', weight = 2, positive_values = Some [''gmail.com''], negative_values = None, threshold_score = Some 1\<rparr>,
                          \<lparr>criteria_type = ''phone_format'', weight = 3 / 2, positive_values = None, negative_values = None, threshold_score = Some 1\<rparr>],
         auto_qualify_threshold = None, require_review_threshold = None, disqualify_threshold = None\<rparr>
      = Inr \<lparr>total_score = 10, sr_raw_score = 7 / 2, max_possible_score = 7 / 2,
        criteria_scores =
          [(''email_domain'', \<lparr>score = 2, raw_score = 1, cs_weight = 2,
               cs_reasoning = [''Email domain gmail.com is in positive list'']\<rparr>),
           (''phone_format'', \<lparr>score = 3 / 2, raw_score = 1, cs_weight = 3 / 2,
               cs_reasoning = [''Valid 10-digit phone number'']\<rparr>)],
        confidence = 3 / 5,
        reasoning = [''Email domain gmail.com is in positive list'', ''Valid 10-digit phone number'']\<rparr>
   \<and> (0::real) \<le> 10 \<and> (10::real) \<le> 10 \<and> (1::real) / 10 \<le> 3 / 5 \<and> (3::real) / 5 \<le> 1"
  using lead_score_in_range
    [of "\<lparr>criteria = Some [\<lparr>criteria_type = ''email_domain'', weight = 2, positive_values = Some [''gmail.com''], negative_values = None, threshold_score = Some 1\<rparr>,
                          \<lparr>criteria_type = ''phone_format'', weight = 3 / 2, positive_values = None, negative_values = None, threshold_score = Some 1\<rparr>],
         auto_qualify_threshold = None, require_review_threshold = None, disqualify_threshold = None\<rparr>"
        "[''email'' \<mapsto> PStr ''a@gmail.com'', ''phone'' \<mapsto> PStr ''555-123-4567'']"]
  by (simp add: calculate_lead_score_def score_criteria_def raw_criteria_score_def
      calculate_confidence_def important_fields_def py_round2_def criterion_in_range_def
      known_criteria_types_def score_email_domain_def score_phone_format_def string_eval)

text \<open>
  Claim C1. For every lead record and every scoring profile, the score result has a
  normalized score in [0, 10] and a confidence in [0.1, 1]. The code breaks the first half
  on the one branch that does not score in the unit interval: a criterion of an unknown
  type is scored by its threshold score, whatever that is. For the empty lead and a
  profile with the single criterion of type "custom", weight 1 and threshold score 5, the
  result has the normalized score 50, above the 10 that the source's own comment
  ("Normalize score to 0-10 scale"), the reported \<open>max_score\<close> and the result schema
  all promise.
\<close>

theorem lead_score_unknown_type_off_scale:
  "calculate_lead_score Map.empty
     \<lparr>criteria = Some [\<lparr>criteria_type = ''custom'', weight = 1, positive_values = None,
                        negative_values = None, threshold_score = Some 5\<rparr>],
      auto_qualify_threshold = None, require_review_threshold = None,
      disqualify_threshold = None\<rparr>
   = Inr \<lparr>total_score = 50, sr_raw_score = 5, max_possible_score = 1,
      criteria_scores = [(''custom'', \<lparr>score = 5, raw_score = 5, cs_weight = 1,
         cs_reasoning = [''Unknown criteria type: custom, using threshold score'']\<rparr>)],
      confidence = 1 / 2,
      reasoning = [''Unknown criteria type: custom, using threshold score'']\<rparr>
   \<and> \<not> ((50::real) \<le> 10)"
  by (simp add: calculate_lead_score_def score_criteria_def raw_criteria_score_def
      calculate_confidence_def important_fields_def py_round2_def string_eval)

lemma count_provided_total:
  "string_valued d ks \<Longrightarrow> \<exists>n. count_provided d ks = Inr n"
proof (induction ks)
  case Nil
  then show ?case by simp
next
  case (Cons k ks)
  then obtain n where n: "count_provided d ks = Inr n" by (auto simp: string_valued_def)
  have "\<exists>s. get_or_empty d k = PStr s"
    using Cons.prems by (auto simp: string_valued_def get_or_empty_def split: option.splits pyval.splits)
  then show ?case using n by auto
qed

lemmas lead_eval = calculate_lead_score_def score_criteria_def raw_criteria_score_def
  calculate_confidence_def important_fields_def py_round2_def
  determine_qualification_status_def threshold_or_def string_valued_def

text \<open>
  Claim C2, as amended. A lead record whose important fields hold strings where they are
  present, scored against a profile with no criteria, gives a score result (nothing is
  raised) with normalized score 0 and confidence \<open>max 0.1 (k / 20)\<close>, where \<open>k\<close>
  counts the important fields that are not blank; so the confidence is 0.1 exactly when at
  most two of them are given. The status is the classification of score 0: it is
  auto_disqualified whenever the qualify threshold is above 1, the review threshold above
  0.5 and the disqualify threshold not negative (the default profile), and it can only be
  manual_review under a negative disqualify threshold.
\<close>

theorem empty_profile_score:
  assumes "criteria profile = None \<or> criteria profile = Some []"
    and "string_valued lead_data important_fields"
  shows "\<exists>r k. count_provided lead_data important_fields = Inr k
           \<and> calculate_lead_score lead_data profile = Inr r
           \<and> total_score r = 0
           \<and> confidence r = max (1 / 10) (real k / 20)
           \<and> (confidence r = 1 / 10) = (k \<le> 2)
           \<and> (1 < threshold_or (auto_qualify_threshold profile) 7
                \<and> 1 / 2 < threshold_or (require_review_threshold profile) 5
                \<and> 0 \<le> threshold_or (disqualify_threshold profile) 3
              \<longrightarrow> determine_qualification_status r profile = ''auto_disqualified'')
           \<and> (determine_qualification_status r profile = ''manual_review''
              \<longrightarrow> threshold_or (disqualify_threshold profile) 3 < 0)"
proof -
  obtain k where k: "count_provided lead_data important_fields = Inr k"
    using count_provided_total[OF assms(2)] by blast
  have k10: "k \<le> 10" using count_provided_le[OF k] by (simp add: important_fields_def)
  define conf where "conf = max (1 / 10) (real k / 20)"
  define r where "r = \<lparr>total_score = 0, sr_raw_score = 0, max_possible_score = 0,
      criteria_scores = [], confidence = conf, reasoning = []\<rparr>"
  have c: "calculate_confidence lead_data [] = Inr conf"
    using k k10 by (simp add: calculate_confidence_def conf_def min_def)
  have cl: "(case criteria profile of None \<Rightarrow> [] | Some cs \<Rightarrow> cs) = []"
    using assms(1) by auto
  have r0: "py_round2 0 = 0" by (simp add: py_round2_def)
  have res: "calculate_lead_score lead_data profile = Inr r"
    unfolding calculate_lead_score_def cl Let_def by (simp add: c r0 r_def)
  have t: "total_score r = 0" and cr: "confidence r = conf" by (simp_all add: r_def)
  have c1: "(conf = 1 / 10) = (k \<le> 2)" unfolding conf_def max_def by auto
  have c2: "conf \<le> 1 / 2" using k10 unfolding conf_def by simp
  have s1: "1 < threshold_or (auto_qualify_threshold profile) 7
                \<and> 1 / 2 < threshold_or (require_review_threshold profile) 5
                \<and> 0 \<le> threshold_or (disqualify_threshold profile) 3
              \<longrightarrow> determine_qualification_status r profile = ''auto_disqualified''"
    by (simp add: determine_qualification_status_def Let_def t)
  have s2: "determine_qualification_status r profile = ''manual_review''
              \<longrightarrow> threshold_or (disqualify_threshold profile) 3 < 0"
    by (simp add: determine_qualification_status_def Let_def t split: if_splits)
  have cr': "confidence r = max (1 / 10) (real k / 20)" using cr by (simp add: conf_def)
  have c1': "(confidence r = 1 / 10) = (k \<le> 2)" using c1 cr by simp
  show ?thesis
    by (rule exI[of _ r], rule exI[of _ k], intro conjI) (fact k res t cr' c1' s1 s2)+
qed

theorem empty_profile_score_witness:
  "(criteria \<lparr>criteria = Some [], auto_qualify_threshold = Some 7,
       require_review_threshold = Some 5, disqualify_threshold = Some 3\<rparr> = None
    \<or> criteria \<lparr>criteria = Some [], auto_qualify_threshold = Some 7,
       require_review_threshold = Some 5, disqualify_threshold = Some 3\<rparr> = Some [])
   \<and> string_valued [''email'' \<mapsto> PStr ''a@gmail.com'', ''phone'' \<mapsto> PStr ''555-123-4567'',
        ''city'' \<mapsto> PStr ''Austin''] important_fields
   \<and> (\<exists>r k. count_provided [''email'' \<mapsto> PStr ''a@gmail.com'', ''phone'' \<mapsto> PStr ''555-123-4567'',
        ''city'' \<mapsto> PStr ''Austin''] important_fields = Inr k
      \<and> calculate_lead_score [''email'' \<mapsto> PStr ''a@gmail.com'', ''phone'' \<mapsto> PStr ''555-123-4567'',
        ''city'' \<mapsto> PStr ''Austin'']
          \<lparr>criteria = Some [], auto_qualify_threshold = Some 7,
           require_review_threshold = Some 5, disqualify_threshold = Some 3\<rparr> = Inr r
      \<and> total_score r = 0 \<and> confidence r = max (1 / 10) (real k / 20)
      \<and> determine_qualification_status r
          \<lparr>criteria = Some [], auto_qualify_threshold = Some 7,
           require_review_threshold = Some 5, disqualify_threshold = Some 3\<rparr> = ''auto_disqualified'')"
  using empty_profile_score
    [of "\<lparr>criteria = Some [], auto_qualify_threshold = Some 7,
           require_review_threshold = Some 5, disqualify_threshold = Some 3\<rparr>"
        "[''email'' \<mapsto> PStr ''a@gmail.com'', ''phone'' \<mapsto> PStr ''555-123-4567'',
        ''city'' \<mapsto> PStr ''Austin'']"]
  by (simp add: string_valued_def important_fields_def threshold_or_def) blast

text \<open>
  The claim as first stated fails: for the empty lead and the default thresholds the
  status of the zero score is auto_disqualified, not manual_review; and a lead with three
  important fields has confidence 0.15.
\<close>

theorem empty_profile_counterexample:
  "calculate_lead_score Map.empty
     \<lparr>criteria = Some [], auto_qualify_threshold = Some 7,
      require_review_threshold = Some 5, disqualify_threshold = Some 3\<rparr>
   = Inr \<lparr>total_score = 0, sr_raw_score = 0, max_possible_score = 0, criteria_scores = [],
          confidence = 1 / 10, reasoning = []\<rparr>
   \<and> determine_qualification_status
       \<lparr>total_score = 0, sr_raw_score = 0, max_possible_score = 0, criteria_scores = [],
        confidence = 1 / 10, reasoning = []\<rparr>
       \<lparr>criteria = Some [], auto_qualify_threshold = Some 7,
        require_review_threshold = Some 5, disqualify_threshold = Some 3\<rparr>
     = ''auto_disqualified''
   \<and> ''auto_disqualified'' \<noteq> ''manual_review''
   \<and> calculate_lead_score
       [''email'' \<mapsto> PStr ''a@gmail.com'', ''phone'' \<mapsto> PStr ''555-123-4567'',
        ''city'' \<mapsto> PStr ''Austin'']
       \<lparr>criteria = Some [], auto_qualify_threshold = Some 7,
        require_review_threshold = Some 5, disqualify_threshold = Some 3\<rparr>
     = Inr \<lparr>total_score = 0, sr_raw_score = 0, max_possible_score = 0, criteria_scores = [],
            confidence = 3 / 20, reasoning = []\<rparr>
   \<and> (3::real) / 20 \<noteq> 1 / 10"
  by (simp add: lead_eval string_eval)

text \<open>
  A field that is present and holds \<open>None\<close> is outside the amended claim: the string
  methods raise on it.
\<close>

lemma none_valued_field_raises:
  "score_criteria [''email'' \<mapsto> PNone]
        \<lparr>criteria_type = ''email_domain'', weight = 1, positive_values = None,
         negative_values = None, threshold_score = None\<rparr> = Inl AttributeError
   \<and> calculate_lead_score [''email'' \<mapsto> PNone]
     \<lparr>criteria = Some [], auto_qualify_threshold = Some 7,
      require_review_threshold = Some 5, disqualify_threshold = Some 3\<rparr> = Inl AttributeError"
  by (simp add: lead_eval string_eval score_email_domain_def)

text \<open>
  Claim C3, as amended. For every profile with disqualify threshold \<open>\<le>\<close> review threshold
  \<open>\<le>\<close> qualify threshold and every score result with confidence at least 0.5:
  auto_disqualified is returned only for a score at or below the disqualify threshold;
  every score from the review threshold up to, but not including, the qualify threshold is
  review_required; and every score strictly between the disqualify and the review
  threshold is manual_review.
\<close>

theorem classification_bands:
  assumes "threshold_or (disqualify_threshold profile) 3 \<le> threshold_or (require_review_threshold profile) 5"
    and "threshold_or (require_review_threshold profile) 5 \<le> threshold_or (auto_qualify_threshold profile) 7"
    and "1 / 2 \<le> confidence sr"
  shows "(determine_qualification_status sr profile = ''auto_disqualified''
            \<longrightarrow> total_score sr \<le> threshold_or (disqualify_threshold profile) 3)
       \<and> (threshold_or (require_review_threshold profile) 5 \<le> total_score sr
            \<and> total_score sr < threshold_or (auto_qualify_threshold profile) 7
            \<longrightarrow> determine_qualification_status sr profile = ''review_required'')
       \<and> (threshold_or (disqualify_threshold profile) 3 < total_score sr
            \<and> total_score sr < threshold_or (require_review_threshold profile) 5
            \<longrightarrow> determine_qualification_status sr profile = ''manual_review'')"
  using assms by (simp add: determine_qualification_status_def Let_def)

theorem classification_bands_witness:
  "threshold_or (disqualify_threshold \<lparr>criteria = None, auto_qualify_threshold = None,
       require_review_threshold = None, disqualify_threshold = None\<rparr>) 3
     \<le> threshold_or (require_review_threshold \<lparr>criteria = None, auto_qualify_threshold = None,
       require_review_threshold = None, disqualify_threshold = None\<rparr>) 5
   \<and> threshold_or (require_review_threshold \<lparr>criteria = None, auto_qualify_threshold = None,
       require_review_threshold = None, disqualify_threshold = None\<rparr>) 5
     \<le> threshold_or (auto_qualify_threshold \<lparr>criteria = None, auto_qualify_threshold = None,
       require_review_threshold = None, disqualify_threshold = None\<rparr>) 7
   \<and> 1 / 2 \<le> confidence \<lparr>total_score = 4, sr_raw_score = 2, max_possible_score = 5,
       criteria_scores = [], confidence = 4 / 5, reasoning = []\<rparr>
   \<and> determine_qualification_status \<lparr>total_score = 4, sr_raw_score = 2, max_possible_score = 5,
       criteria_scores = [], confidence = 4 / 5, reasoning = []\<rparr>
       \<lparr>criteria = None, auto_qualify_threshold = None,
        require_review_threshold = None, disqualify_threshold = None\<rparr> = ''manual_review''"
  using classification_bands
    [of "\<lparr>criteria = None, auto_qualify_threshold = None,
        require_review_threshold = None, disqualify_threshold = None\<rparr>"
        "\<lparr>total_score = 4, sr_raw_score = 2, max_possible_score = 5,
       criteria_scores = [], confidence = 4 / 5, reasoning = []\<rparr>"]
  by (simp add: threshold_or_def)

text \<open>
  The claim as first stated fails: with thresholds 3, 5, 7 and confidence 1, the score 6
  lies strictly between the review and the qualify threshold and is review_required.
\<close>

theorem classification_between_counterexample:
  "(3::real) \<le> 5 \<and> (5::real) \<le> 7
   \<and> (1::real) / 2 \<le> 1
   \<and> (5::real) < 6 \<and> (6::real) < 7
   \<and> determine_qualification_status
        \<lparr>total_score = 6, sr_raw_score = 3, max_possible_score = 5, criteria_scores = [],
         confidence = 1, reasoning = []\<rparr>
        \<lparr>criteria = Some [], auto_qualify_threshold = Some 7,
         require_review_threshold = Some 5, disqualify_threshold = Some 3\<rparr>
      = ''review_required''
   \<and> ''review_required'' \<noteq> ''manual_review''"
  by (simp add: determine_qualification_status_def threshold_or_def)

lemma missing_get: "missing d k \<Longrightarrow> get_or_empty d k = PStr []"
  by (auto simp: missing_def get_or_empty_def)

lemma strip_empty: "str_strip [] = []"
  by (simp add: str_strip_def)

lemma lower_empty: "str_lower [] = []" and upper_empty: "str_upper [] = []"
  by (simp_all add: str_lower_def str_upper_def)

lemma credit_concern_missing:
  assumes "concern_level_missing l"
  shows "score_credit_concern_level l = Inr (1 / 2, [])"
proof (cases "l ''custom_fields''")
  case None
  then show ?thesis
    by (simp add: score_credit_concern_level_def get_or_empty_def str_lower_def urgency_indicators_def)
next
  case (Some v)
  then obtain cf where v: "v = PDict cf" and m: "missing (map_of cf) ''concern_level''"
    using assms by (auto simp: concern_level_missing_def split: pyval.splits)
  show ?thesis
    using Some v missing_get[OF m]
    by (simp add: score_credit_concern_level_def str_lower_def urgency_indicators_def)
qed

text \<open>
  Claim C4, as amended. When the fact a criterion examines is missing (its key absent, or
  the empty string), the evaluator returns a result, never an error. For email_domain,
  phone_format, utm_source, lead_source, name_completeness and address_validity (all four
  address fields missing) the score is 0 with one reasoning entry (the address entry
  reads "Incomplete address provided"). For credit_concern_level the score is the neutral
  0.5 with no reasoning entry, and for demographic_fit the neutral 0.5 with the entry
  "No state information provided".
\<close>

theorem missing_fact_scores:
  "(missing l ''email'' \<longrightarrow>
      score_criteria l (c\<lparr>criteria_type := ''email_domain''\<rparr>)
        = Inr \<lparr>score = 0, raw_score = 0, cs_weight = weight c,
               cs_reasoning = [''No email provided'']\<rparr>)
 \<and> (missing l ''phone'' \<longrightarrow>
      score_criteria l (c\<lparr>criteria_type := ''phone_format''\<rparr>)
        = Inr \<lparr>score = 0, raw_score = 0, cs_weight = weight c,
               cs_reasoning = [''No phone number provided'']\<rparr>)
 \<and> (missing l ''street_address'' \<and> missing l ''city'' \<and> missing l ''state''
      \<and> missing l ''zip_code'' \<longrightarrow>
      score_criteria l (c\<lparr>criteria_type := ''address_validity''\<rparr>)
        = Inr \<lparr>score = 0, raw_score = 0, cs_weight = weight c,
               cs_reasoning = [''Incomplete address provided'']\<rparr>)
 \<and> (missing l ''utm_source'' \<longrightarrow>
      score_criteria l (c\<lparr>criteria_type := ''utm_source''\<rparr>)
        = Inr \<lparr>score = 0, raw_score = 0, cs_weight = weight c,
               cs_reasoning = [''No UTM source provided'']\<rparr>)
 \<and> (missing l ''lead_source'' \<longrightarrow>
      score_criteria l (c\<lparr>criteria_type := ''lead_source''\<rparr>)
        = Inr \<lparr>score = 0, raw_score = 0, cs_weight = weight c,
               cs_reasoning = [''No lead source specified'']\<rparr>)
 \<and> (missing l ''first_name'' \<and> missing l ''last_name'' \<longrightarrow>
      score_criteria l (c\<lparr>criteria_type := ''name_completeness''\<rparr>)
        = Inr \<lparr>score = 0, raw_score = 0, cs_weight = weight c,
               cs_reasoning = [''No name provided'']\<rparr>)
 \<and> (concern_level_missing l \<longrightarrow>
      score_criteria l (c\<lparr>criteria_type := ''credit_concern_level''\<rparr>)
        = Inr \<lparr>score = 1 / 2 * weight c, raw_score = 1 / 2, cs_weight = weight c,
               cs_reasoning = []\<rparr>)
 \<and> (missing l ''state'' \<longrightarrow>
      score_criteria l (c\<lparr>criteria_type := ''demographic_fit''\<rparr>)
        = Inr \<lparr>score = 1 / 2 * weight c, raw_score = 1 / 2, cs_weight = weight c,
               cs_reasoning = [''No state information provided'']\<rparr>)"
proof (intro conjI impI)
  assume "missing l ''email''"
  then show "score_criteria l (c\<lparr>criteria_type := ''email_domain''\<rparr>)
        = Inr \<lparr>score = 0, raw_score = 0, cs_weight = weight c,
               cs_reasoning = [''No email provided'']\<rparr>"
    by (simp add: score_criteria_def raw_criteria_score_def score_email_domain_def
        missing_get lower_empty)
next
  assume "missing l ''phone''"
  then show "score_criteria l (c\<lparr>criteria_type := ''phone_format''\<rparr>)
        = Inr \<lparr>score = 0, raw_score = 0, cs_weight = weight c,
               cs_reasoning = [''No phone number provided'']\<rparr>"
    by (simp add: score_criteria_def raw_criteria_score_def score_phone_format_def missing_get)
next
  assume "missing l ''street_address'' \<and> missing l ''city'' \<and> missing l ''state''
      \<and> missing l ''zip_code''"
  then show "score_criteria l (c\<lparr>criteria_type := ''address_validity''\<rparr>)
        = Inr \<lparr>score = 0, raw_score = 0, cs_weight = weight c,
               cs_reasoning = [''Incomplete address provided'']\<rparr>"
    by (simp add: score_criteria_def raw_criteria_score_def score_address_validity_def
        address_fields_def missing_get strip_empty)
next
  assume "missing l ''utm_source''"
  then show "score_criteria l (c\<lparr>criteria_type := ''utm_source''\<rparr>)
        = Inr \<lparr>score = 0, raw_score = 0, cs_weight = weight c,
               cs_reasoning = [''No UTM source provided'']\<rparr>"
    by (simp add: score_criteria_def raw_criteria_score_def score_utm_source_def
        missing_get lower_empty)
next
  assume "missing l ''lead_source''"
  then show "score_criteria l (c\<lparr>criteria_type := ''lead_source''\<rparr>)
        = Inr \<lparr>score = 0, raw_score = 0, cs_weight = weight c,
               cs_reasoning = [''No lead source specified'']\<rparr>"
    by (simp add: score_criteria_def raw_criteria_score_def score_lead_source_def
        missing_get lower_empty)
next
  assume "missing l ''first_name'' \<and> missing l ''last_name''"
  then show "score_criteria l (c\<lparr>criteria_type := ''name_completeness''\<rparr>)
        = Inr \<lparr>score = 0, raw_score = 0, cs_weight = weight c,
               cs_reasoning = [''No name provided'']\<rparr>"
    by (simp add: score_criteria_def raw_criteria_score_def score_name_completeness_def
        missing_get strip_empty)
next
  assume "concern_level_missing l"
  then show "score_criteria l (c\<lparr>criteria_type := ''credit_concern_level''\<rparr>)
        = Inr \<lparr>score = 1 / 2 * weight c, raw_score = 1 / 2, cs_weight = weight c,
               cs_reasoning = []\<rparr>"
    by (simp add: score_criteria_def raw_criteria_score_def credit_concern_missing)
next
  assume "missing l ''state''"
  then show "score_criteria l (c\<lparr>criteria_type := ''demographic_fit''\<rparr>)
        = Inr \<lparr>score = 1 / 2 * weight c, raw_score = 1 / 2, cs_weight = weight c,
               cs_reasoning = [''No state information provided'']\<rparr>"
    by (simp add: score_criteria_def raw_criteria_score_def score_demographic_fit_def
        missing_get upper_empty high_demand_states_def)
qed

theorem missing_fact_scores_witness:
  "missing Map.empty ''email'' \<and> missing Map.empty ''phone''
   \<and> missing Map.empty ''street_address'' \<and> missing Map.empty ''city''
   \<and> missing Map.empty ''state'' \<and> missing Map.empty ''zip_code''
   \<and> missing Map.empty ''utm_source'' \<and> missing Map.empty ''lead_source''
   \<and> missing Map.empty ''first_name'' \<and> missing Map.empty ''last_name''
   \<and> concern_level_missing Map.empty
   \<and> score_criteria Map.empty
        \<lparr>criteria_type = ''email_domain'', weight = 2, positive_values = Some [''gmail.com''],
         negative_values = None, threshold_score = Some 1\<rparr>
      = Inr \<lparr>score = 0, raw_score = 0, cs_weight = 2, cs_reasoning = [''No email provided'']\<rparr>
   \<and> score_criteria Map.empty
        \<lparr>criteria_type = ''name_completeness'', weight = 2, positive_values = Some [''gmail.com''],
         negative_values = None, threshold_score = Some 1\<rparr>
      = Inr \<lparr>score = 0, raw_score = 0, cs_weight = 2, cs_reasoning = [''No name provided'']\<rparr>
   \<and> score_criteria Map.empty
        \<lparr>criteria_type = ''demographic_fit'', weight = 2, positive_values = Some [''gmail.com''],
         negative_values = None, threshold_score = Some 1\<rparr>
      = Inr \<lparr>score = 1, raw_score = 1 / 2, cs_weight = 2,
             cs_reasoning = [''No state information provided'']\<rparr>"
  using missing_fact_scores
    [of Map.empty "\<lparr>criteria_type = ''email_domain'', weight = 2,
         positive_values = Some [''gmail.com''], negative_values = None,
         threshold_score = Some 1\<rparr>"]
  by (simp add: missing_def concern_level_missing_def)

text \<open>
  The claim as first stated fails: with no custom fields the credit_concern_level
  criterion scores 0.5 and gives no reasoning, and with no state the demographic_fit
  criterion scores 0.5.
\<close>

theorem missing_fact_neutral_counterexample:
  "missing Map.empty ''custom_fields''
   \<and> score_criteria Map.empty
        \<lparr>criteria_type = ''credit_concern_level'', weight = 1, positive_values = None,
         negative_values = None, threshold_score = None\<rparr>
      = Inr \<lparr>score = 1 / 2, raw_score = 1 / 2, cs_weight = 1, cs_reasoning = []\<rparr>
   \<and> (1::real) / 2 \<noteq> 0
   \<and> missing Map.empty ''state''
   \<and> score_criteria Map.empty
        \<lparr>criteria_type = ''demographic_fit'', weight = 1, positive_values = None,
         negative_values = None, threshold_score = None\<rparr>
      = Inr \<lparr>score = 1 / 2, raw_score = 1 / 2, cs_weight = 1,
             cs_reasoning = [''No state information provided'']\<rparr>"
  by (simp add: missing_def score_criteria_def raw_criteria_score_def
      score_credit_concern_level_def score_demographic_fit_def urgency_indicators_def
      high_demand_states_def string_eval)

section \<open>Properties of churn prediction\<close>

lemma risk_loop_sums:
  "risk_loop fs (a, b) =
     (a + sum_list (map (\<lambda>f. impact_of f * weight_of f) fs), b + sum_list (map weight_of fs))"
  by (induction fs arbitrary: a b) simp_all

lemma sigmoid_mono:
  fixes x y :: real
  assumes "x \<le> y"
  shows "1 / (1 + exp (- 6 * (x - 1 / 2))) \<le> 1 / (1 + exp (- 6 * (y - 1 / 2)))"
proof -
  have "exp (- 6 * (y - 1 / 2)) \<le> exp (- 6 * (x - 1 / 2))" using assms by simp
  moreover have "0 < 1 + exp (- 6 * (y - 1 / 2))" by (simp add: add_pos_pos)
  ultimately show ?thesis by (intro divide_left_mono) (simp_all add: add_pos_pos)
qed

lemma churn_probability_defined:
  assumes "total_weight_of fs \<noteq> 0"
  shows "calculate_churn_probability fs =
           max 0 (min 1 (1 / (1 + exp (- 6 * (aggregate_risk fs - 1 / 2)))))"
proof -
  have ne: "fs \<noteq> []" using assms by (auto simp: total_weight_of_def)
  show ?thesis
    using assms ne
    by (simp add: calculate_churn_probability_def risk_loop_sums aggregate_risk_def
        total_weight_of_def Let_def)
qed

text \<open>
  Claim C5. The churn probability is always in [0, 1], and it is monotonically
  non-decreasing in the aggregate normalized weighted risk: of two risk-factor lists whose
  weights do not sum to zero (so that the normalized risk is defined), the one with the
  higher normalized weighted risk never has the lower probability.
\<close>

theorem churn_probability_bounded_monotone:
  "0 \<le> calculate_churn_probability fs \<and> calculate_churn_probability fs \<le> 1
   \<and> (total_weight_of fs \<noteq> 0 \<and> total_weight_of gs \<noteq> 0
        \<and> aggregate_risk fs \<le> aggregate_risk gs
      \<longrightarrow> calculate_churn_probability fs \<le> calculate_churn_probability gs)"
proof (intro conjI impI)
  show "0 \<le> calculate_churn_probability fs"
    by (simp add: calculate_churn_probability_def Let_def split: prod.splits)
  show "calculate_churn_probability fs \<le> 1"
    by (simp add: calculate_churn_probability_def Let_def split: prod.splits)
next
  assume a: "total_weight_of fs \<noteq> 0 \<and> total_weight_of gs \<noteq> 0
        \<and> aggregate_risk fs \<le> aggregate_risk gs"
  then have m: "1 / (1 + exp (- 6 * (aggregate_risk fs - 1 / 2)))
        \<le> 1 / (1 + exp (- 6 * (aggregate_risk gs - 1 / 2)))"
    using sigmoid_mono by blast
  show "calculate_churn_probability fs \<le> calculate_churn_probability gs"
    using a m by (simp add: churn_probability_defined min_def max_def)
qed

theorem churn_probability_bounded_monotone_witness:
  "total_weight_of [\<lparr>factor_name = ''payment_behavior'', rf_weight = Some (5 / 2),
         impact_score = Some (1 / 5), rf_risk_level = ''low''\<rparr>] \<noteq> 0
   \<and> total_weight_of [\<lparr>factor_name = ''payment_behavior'', rf_weight = Some (5 / 2),
         impact_score = Some (9 / 10), rf_risk_level = ''high''\<rparr>,
        \<lparr>factor_name = ''client_tenure'', rf_weight = Some 1,
         impact_score = Some (3 / 5), rf_risk_level = ''medium''\<rparr>] \<noteq> 0
   \<and> aggregate_risk [\<lparr>factor_name = ''payment_behavior'', rf_weight = Some (5 / 2),
         impact_score = Some (1 / 5), rf_risk_level = ''low''\<rparr>]
      \<le> aggregate_risk [\<lparr>factor_name = ''payment_behavior'', rf_weight = Some (5 / 2),
         impact_score = Some (9 / 10), rf_risk_level = ''high''\<rparr>,
        \<lparr>factor_name = ''client_tenure'', rf_weight = Some 1,
         impact_score = Some (3 / 5), rf_risk_level = ''medium''\<rparr>]
   \<and> calculate_churn_probability [\<lparr>factor_name = ''payment_behavior'', rf_weight = Some (5 / 2),
         impact_score = Some (1 / 5), rf_risk_level = ''low''\<rparr>]
      \<le> calculate_churn_probability [\<lparr>factor_name = ''payment_behavior'', rf_weight = Some (5 / 2),
         impact_score = Some (9 / 10), rf_risk_level = ''high''\<rparr>,
        \<lparr>factor_name = ''client_tenure'', rf_weight = Some 1,
         impact_score = Some (3 / 5), rf_risk_level = ''medium''\<rparr>]"
  using churn_probability_bounded_monotone
    [of "[\<lparr>factor_name = ''payment_behavior'', rf_weight = Some (5 / 2),
         impact_score = Some (1 / 5), rf_risk_level = ''low''\<rparr>]"
        "[\<lparr>factor_name = ''payment_behavior'', rf_weight = Some (5 / 2),
         impact_score = Some (9 / 10), rf_risk_level = ''high''\<rparr>,
        \<lparr>factor_name = ''client_tenure'', rf_weight = Some 1,
         impact_score = Some (3 / 5), rf_risk_level = ''medium''\<rparr>]"]
  by (simp add: total_weight_of_def aggregate_risk_def weight_of_def impact_of_def)

text \<open>
  Claim C10. The risk level is a function of the churn probability with fixed cut points:
  critical exactly from 0.7 up, high exactly on [0.5, 0.7), medium exactly on [0.3, 0.5),
  low exactly below 0.3; and it is monotone non-decreasing in the probability.
\<close>

theorem risk_level_cut_points:
  "(determine_risk_level p = ''critical'') = (7 / 10 \<le> p)
   \<and> (determine_risk_level p = ''high'') = (1 / 2 \<le> p \<and> p < 7 / 10)
   \<and> (determine_risk_level p = ''medium'') = (3 / 10 \<le> p \<and> p < 1 / 2)
   \<and> (determine_risk_level p = ''low'') = (p < 3 / 10)
   \<and> (p \<le> q \<longrightarrow> risk_rank (determine_risk_level p) \<le> risk_rank (determine_risk_level q))"
  by (auto simp: determine_risk_level_def risk_rank_def)

theorem risk_level_cut_points_witness:
  "(3::real) / 10 \<le> 7 / 10
   \<and> determine_risk_level (3 / 10) = ''medium''
   \<and> determine_risk_level (7 / 10) = ''critical''
   \<and> risk_rank (determine_risk_level (3 / 10)) \<le> risk_rank (determine_risk_level (7 / 10))"
  using risk_level_cut_points [of "3 / 10" "7 / 10"]
  by (simp add: determine_risk_level_def)

section \<open>Properties of bureau targeting\<close>

lemma best_rule_loop_member:
  assumes "best_rule_loop rules d h (b, s) = Inr (Some r, s')"
  shows "r \<in> set rules \<or> b = Some r"
  using assms
proof (induction rules arbitrary: b s)
  case Nil
  then show ?case by simp
next
  case (Cons a rules)
  obtain x where x: "calculate_rule_relevance a d h = Inr x"
    using Cons.prems by (cases "calculate_rule_relevance a d h") simp_all
  show ?case
  proof (cases "s < x")
    case True
    then have "best_rule_loop rules d h (Some a, x) = Inr (Some r, s')"
      using Cons.prems x by simp
    from Cons.IH[OF this] show ?thesis by auto
  next
    case False
    then have "best_rule_loop rules d h (b, s) = Inr (Some r, s')"
      using Cons.prems x by simp
    from Cons.IH[OF this] show ?thesis by auto
  qed
qed

lemma apply_targeting_rules_nonempty:
  assumes "list_all (\<lambda>r. recommended_bureaus r \<noteq> Some []) rules"
    and "apply_targeting_rules d rules h = Inr rec"
  shows "bureaus rec \<noteq> []"
proof (cases "rules = []")
  case True
  then show ?thesis using assms(2) by (auto simp: apply_targeting_rules_def)
next
  case False
  obtain b s where loop: "best_rule_loop rules d h (None, 0) = Inr (b, s)"
    using assms(2) False
    by (cases "best_rule_loop rules d h (None, 0)") (auto simp: apply_targeting_rules_def)
  show ?thesis
  proof (cases b)
    case None
    then show ?thesis using assms(2) False loop by (auto simp: apply_targeting_rules_def)
  next
    case (Some r)
    have "r \<in> set rules" using best_rule_loop_member[of rules d h None 0 r s] loop Some by simp
    then have ne: "recommended_bureaus r \<noteq> Some []"
      using assms(1) by (simp add: list_all_iff)
    show ?thesis
      using assms(2) False loop Some ne
      by (auto simp: apply_targeting_rules_def Let_def split: if_splits option.splits)
  qed
qed

text \<open>
  Claim C6, as amended. For every dispute input and client history, the recommended
  bureaus are not empty provided no targeting rule stores an empty list of recommended
  bureaus (the list of the rule applied is returned as stored). With no active targeting
  rule the recommendation is exactly "all", with confidence 0.6, which lies in [0.5, 0.7],
  and the reason "Default recommendation - target all bureaus".
\<close>

theorem bureau_recommendation_nonempty:
  "(list_all (\<lambda>r. recommended_bureaus r \<noteq> Some []) rules
      \<longrightarrow> bureaus (recommend_bureaus d rules h) \<noteq> [])
   \<and> recommend_bureaus d [] h =
       \<lparr>bureaus = [''all''], rec_confidence = 3 / 5, rec_rule_name = ''default_all_bureaus'',
        alternatives = [''equifax'', ''experian'', ''transunion''],
        rec_reasoning = [''Default recommendation - target all bureaus'']\<rparr>
   \<and> 1 / 2 \<le> rec_confidence (recommend_bureaus d [] h)
   \<and> rec_confidence (recommend_bureaus d [] h) \<le> 7 / 10"
proof (intro conjI impI)
  assume a: "list_all (\<lambda>r. recommended_bureaus r \<noteq> Some []) rules"
  show "bureaus (recommend_bureaus d rules h) \<noteq> []"
  proof (cases "apply_targeting_rules d rules h")
    case (Inl e)
    then show ?thesis by (simp add: recommend_bureaus_def)
  next
    case (Inr rec)
    then show ?thesis
      using apply_targeting_rules_nonempty[OF a Inr] by (simp add: recommend_bureaus_def)
  qed
qed (simp_all add: recommend_bureaus_def apply_targeting_rules_def)

theorem bureau_recommendation_nonempty_witness:
  "list_all (\<lambda>r. recommended_bureaus r \<noteq> Some [])
     [\<lparr>rule_name = Some ''Late payments'', rule_type = Some ''dispute_type_based'',
       rule_criteria = Some \<lparr>dispute_types = Some [''late_payment''], account_keywords = None,
                              max_avg_disputes = None\<rparr>,
       recommended_bureaus = Some [''equifax'', ''experian''], confidence_score = Some (4 / 5),
       success_history = Some 3, total_applications = Some 4\<rparr>]
   \<and> recommend_bureaus [''dispute_type'' \<mapsto> PStr ''late_payment'']
       [\<lparr>rule_name = Some ''Late payments'', rule_type = Some ''dispute_type_based'',
         rule_criteria = Some \<lparr>dispute_types = Some [''late_payment''], account_keywords = None,
                                max_avg_disputes = None\<rparr>,
         recommended_bureaus = Some [''equifax'', ''experian''], confidence_score = Some (4 / 5),
         success_history = Some 3, total_applications = Some 4\<rparr>] None
     = \<lparr>bureaus = [''equifax'', ''experian''], rec_confidence = 4 / 5,
        rec_rule_name = ''Late payments'', alternatives = [''transunion''],
        rec_reasoning = [''Applied rule: Late payments'']\<rparr>
   \<and> [''equifax'', ''experian''] \<noteq> ([] :: string list)"
  using bureau_recommendation_nonempty
    [of "[\<lparr>rule_name = Some ''Late payments'', rule_type = Some ''dispute_type_based'',
         rule_criteria = Some \<lparr>dispute_types = Some [''late_payment''], account_keywords = None,
                                max_avg_disputes = None\<rparr>,
         recommended_bureaus = Some [''equifax'', ''experian''], confidence_score = Some (4 / 5),
         success_history = Some 3, total_applications = Some 4\<rparr>]"
        "[''dispute_type'' \<mapsto> PStr ''late_payment'']" None]
  by (simp add: recommend_bureaus_def apply_targeting_rules_def calculate_rule_relevance_def
      values_or_empty_def get_alternative_bureaus_def Let_def)

text \<open>
  The claim as first stated fails: a rule that matches the dispute type and stores an
  empty list of recommended bureaus is applied, and the recommendation is empty.
\<close>

theorem bureau_recommendation_empty_counterexample:
  "recommend_bureaus [''dispute_type'' \<mapsto> PStr ''late_payment'']
       [\<lparr>rule_name = Some ''Late payments'', rule_type = Some ''dispute_type_based'',
         rule_criteria = Some \<lparr>dispute_types = Some [''late_payment''], account_keywords = None,
                                max_avg_disputes = None\<rparr>,
         recommended_bureaus = Some [], confidence_score = Some (4 / 5),
         success_history = Some 0, total_applications = Some 0\<rparr>] None
     = \<lparr>bureaus = [], rec_confidence = 4 / 5,
        rec_rule_name = ''Late payments'',
        alternatives = [''equifax'', ''experian'', ''transunion''],
        rec_reasoning = [''Applied rule: Late payments'']\<rparr>"
  by (simp add: recommend_bureaus_def apply_targeting_rules_def calculate_rule_relevance_def
      values_or_empty_def get_alternative_bureaus_def Let_def)

section \<open>Properties of payment retry and round scheduling\<close>

lemma default_low_tier:
  "get_amount_tier 50 (case amount_tiers create_default_config of None \<Rightarrow> [] | Some ts \<Rightarrow> ts)
     = \<lparr>min_amount = None, max_amount = Some 100, tier_strategy = Some ''fixed'',
        delay_multiplier = Some (1 / 2)\<rparr>"
  by (simp add: create_default_config_def get_amount_tier_def)

lemma success_rate_fixed_fifty:
  "estimate_success_rate 0 ''fixed'' 50 = 1771 / 2000"
  by (simp add: estimate_success_rate_def Let_def)

text \<open>
  Claim C8, as amended. For a failed payment of 50 dollars with retry count 0 under the
  default retry configuration, the amount falls in the low tier, whose strategy is fixed
  and whose delay multiplier is 0.5: the next retry is exactly 12 hours after now, and the
  estimated success rate is 0.7 times 1.1 (the modifier of the fixed strategy) times
  \<open>max 0.5 (1.2 - 50/1000)\<close>, clamped to [0.05, 0.95], which is 0.8855.
\<close>

theorem retry_fifty_dollars:
  "calculate_retry_strategy now \<lparr>retry_count = Some 0, amount_cents = Some 5000\<rparr>
      create_default_config
     = \<lparr>rs_retry_count = 1, next_retry_date = now + timedelta_hours 12,
        rs_strategy = ''fixed'', amount_to_charge = 5000,
        payment_method = ''same_as_failed'', success_rate = 1771 / 2000\<rparr>
   \<and> (1771::real) / 2000
       = max (1 / 20) (min (19 / 20) (7 / 10 * (11 / 10) * max (1 / 2) (6 / 5 - 50 / 1000)))"
proof -
  have i: "initial_delay_hours create_default_config = Some 24"
    by (simp add: create_default_config_def)
  show ?thesis
    unfolding calculate_retry_strategy_def
    by (simp add: default_low_tier success_rate_fixed_fifty i)
qed

text \<open>
  The claim as first stated fails: the rate with the modifier 0.9 of the exponential
  strategy would be 0.7245, and the code returns 0.8855.
\<close>

theorem retry_fifty_dollars_counterexample:
  "success_rate (calculate_retry_strategy 0 \<lparr>retry_count = Some 0, amount_cents = Some 5000\<rparr>
      create_default_config) = 1771 / 2000
   \<and> max (1 / 20) (min (19 / 20) (7 / 10 * (9 / 10) * max (1 / 2) (6 / 5 - 50 / 1000)))
       = (1449::real) / 2000
   \<and> (1771::real) / 2000 \<noteq> 1449 / 2000"
proof -
  have "success_rate (calculate_retry_strategy 0
          \<lparr>retry_count = Some 0, amount_cents = Some 5000\<rparr> create_default_config)
        = 1771 / 2000"
    unfolding calculate_retry_strategy_def
    by (simp add: default_low_tier success_rate_fixed_fifty)
  then show ?thesis by simp
qed

text \<open>
  Claim C9, as amended. When no scheduling rule exists for the next round, the round is
  scheduled \<open>30 + 15 (next_round - 1)\<close> days from now, and the estimated success
  probability reported is \<open>max 0.1 (0.8 - 0.1 next_round)\<close>, that is
  \<open>max 0.1 (0.7 - 0.1 (next_round - 1))\<close>, with no dispute-type modifier, no
  responsiveness modifier and no further clamp.
\<close>

theorem default_scheduling:
  "scheduled_date (apply_default_scheduling now d n)
     = now + timedelta_days (30 + 15 * (of_int n - 1))
   \<and> estimated_success_probability (apply_default_scheduling now d n)
     = max (1 / 10) (7 / 10 - 1 / 10 * (of_int n - 1))
   \<and> rule_applied (apply_default_scheduling now d n) = ''default_progressive''"
proof -
  have "(4::real) / 5 - of_int n * (1 / 10) = 7 / 10 - 1 / 10 * (of_int n - 1)"
    by (simp add: field_simps)
  then show ?thesis
    by (simp add: apply_default_scheduling_def Let_def timedelta_days_def)
qed

text \<open>
  The claim as first stated fails: for a collection dispute going to round 2 the default
  path reports 0.6, while the formula with the type and responsiveness modifiers (what
  \<open>_estimate_success_probability\<close> computes) gives 0.42.
\<close>

theorem default_scheduling_counterexample:
  "estimated_success_probability
     (apply_default_scheduling 0 [''dispute_type'' \<mapsto> PStr ''collection''] 2) = 3 / 5
   \<and> estimate_success_probability [''dispute_type'' \<mapsto> PStr ''collection''] 2 = Inr (21 / 50)
   \<and> max (1 / 20) (min (19 / 20)
        (max (1 / 10) (7 / 10 - 1 / 10 * (2 - 1)) * (7 / 10) * (4 / 5 + 2 / 5 * (1 / 2))))
       = (21::real) / 50
   \<and> (3::real) / 5 \<noteq> 21 / 50"
  by (simp add: apply_default_scheduling_def estimate_success_probability_def
      type_modifiers_def get_or_empty_def Let_def)

section \<open>Properties of the dunning sequence\<close>

lemma find_map_state:
  "(\<And>x. P (f x) = P x) \<Longrightarrow> find P (map f xs) = map_option f (find P xs)"
  by (induction xs) simp_all

lemma get_state_after_update:
  "get_sequence_state (update_sequence_state now n db)
     = map_option (\<lambda>s. s\<lparr>current_step := n, last_step_at := Some now\<rparr>) (get_sequence_state db)"
  unfolding get_sequence_state_def update_sequence_state_def
  by (simp add: find_map_state)

lemma find_append_none:
  "find P xs = None \<Longrightarrow> find P (xs @ ys) = find P ys"
  by (induction xs) (simp_all split: if_splits)

lemma get_state_after_start:
  assumes "get_sequence_state db = None"
  shows "get_sequence_state (snd (start_new_sequence now db)) = Some (fst (start_new_sequence now db))"
  using assms unfolding get_sequence_state_def start_new_sequence_def Let_def
  by (simp add: find_append_none)

lemma step_of_after_update:
  "get_sequence_state db \<noteq> None \<Longrightarrow> step_of (update_sequence_state now n db) = n"
  by (auto simp: step_of_def get_state_after_update)

lemma step_of_after_start:
  "get_sequence_state db = None \<Longrightarrow> step_of (snd (start_new_sequence now db)) = 0"
  using get_state_after_start[of db now]
  by (simp add: step_of_def start_new_sequence_def Let_def)

lemma next_step_number:
  "get_next_sequence_step n db = Some st \<Longrightarrow> step_number st = n"
  by (auto simp: get_next_sequence_step_def find_Some_iff)

text \<open>The call on tables that hold an active sequence state.\<close>

lemma process_with_state:
  assumes "get_sequence_state db = Some st"
  shows "process_dunning_sequence now db =
     (case get_next_sequence_step (current_step st + 1) db of
           None \<Rightarrow> (Sequence_complete, db)
         | Some next_step \<Rightarrow>
             if should_trigger_step now next_step st db
             then (Email_sent (step_number next_step) (email_template_key next_step)
                     (case is_final next_step of None \<Rightarrow> False | Some b \<Rightarrow> b),
                   update_sequence_state now (step_number next_step) db)
             else (Wait (get_next_check_date now next_step), db))"
  using assms by (simp add: process_dunning_sequence_def)

lemma process_step_existing:
  assumes "get_sequence_state db = Some st"
  shows "step_of db \<le> step_of (snd (process_dunning_sequence now db))
       \<and> (\<forall>n \<in> set (sent_step (fst (process_dunning_sequence now db))).
            n = step_of db + 1 \<and> step_of (snd (process_dunning_sequence now db)) = n)
       \<and> get_sequence_state (snd (process_dunning_sequence now db)) \<noteq> None"
proof -
  have so: "step_of db = current_step st" using assms by (simp add: step_of_def)
  show ?thesis
  proof (cases "get_next_sequence_step (current_step st + 1) db")
    case None
    then show ?thesis using assms by (simp add: process_with_state[OF assms])
  next
    case (Some ns)
    have n: "step_number ns = current_step st + 1" using next_step_number[OF Some] .
    show ?thesis
    proof (cases "should_trigger_step now ns st db")
      case True
      then show ?thesis
        using Some n so assms
        by (simp add: process_with_state[OF assms] step_of_after_update get_state_after_update)
    next
      case False
      then show ?thesis using Some assms by (simp add: process_with_state[OF assms])
    qed
  qed
qed

text \<open>With no active state, the call first stores a new one and goes on from there.\<close>

lemma process_fresh:
  assumes "get_sequence_state db = None"
  shows "process_dunning_sequence now db
           = process_dunning_sequence now (snd (start_new_sequence now db))"
proof -
  have s: "get_sequence_state (snd (start_new_sequence now db))
             = Some (fst (start_new_sequence now db))"
    using get_state_after_start[OF assms] .
  show ?thesis
    unfolding process_dunning_sequence_def[of now db]
      process_dunning_sequence_def[of now "snd (start_new_sequence now db)"]
    using assms s by (simp add: case_prod_beta)
qed

lemma process_step:
  "step_of db \<le> step_of (snd (process_dunning_sequence now db))
   \<and> (\<forall>n \<in> set (sent_step (fst (process_dunning_sequence now db))).
        n = step_of db + 1 \<and> step_of (snd (process_dunning_sequence now db)) = n)"
proof (cases "get_sequence_state db")
  case (Some st)
  then show ?thesis using process_step_existing[OF Some, of now] by simp
next
  case None
  have s: "get_sequence_state (snd (start_new_sequence now db))
             = Some (fst (start_new_sequence now db))"
    using get_state_after_start[OF None] .
  have z: "step_of db = 0" using None by (simp add: step_of_def)
  have z': "step_of (snd (start_new_sequence now db)) = 0"
    using step_of_after_start[OF None] .
  show ?thesis
    using process_step_existing[OF s, of now] z z' process_fresh[OF None, of now] by simp
qed

lemma run_dunning_steps:
  "sorted (step_of db # map (step_of \<circ> snd) (run_dunning ts db))
   \<and> sorted_wrt (<) (step_of db # sent_steps (run_dunning ts db))"
proof (induction ts arbitrary: db)
  case Nil
  then show ?case by (simp add: sent_steps_def)
next
  case (Cons t ts)
  define r where "r = fst (process_dunning_sequence t db)"
  define db' where "db' = snd (process_dunning_sequence t db)"
  have run: "run_dunning (t # ts) db = (r, db') # run_dunning ts db'"
    by (simp add: r_def db'_def case_prod_beta)
  have st: "step_of db \<le> step_of db'"
    and sent: "\<forall>n \<in> set (sent_step r). n = step_of db + 1 \<and> step_of db' = n"
    using process_step[of db t] by (simp_all add: r_def db'_def)
  have ih1: "sorted (step_of db' # map (step_of \<circ> snd) (run_dunning ts db'))"
    and ih2: "sorted_wrt (<) (step_of db' # sent_steps (run_dunning ts db'))"
    using Cons.IH[of db'] by blast+
  have a: "sorted (step_of db # map (step_of \<circ> snd) (run_dunning (t # ts) db))"
    using st ih1 unfolding run by auto
  have ss: "sent_steps (run_dunning (t # ts) db) = sent_step r @ sent_steps (run_dunning ts db')"
    unfolding run by (simp add: sent_steps_def)
  have later: "\<forall>y \<in> set (sent_steps (run_dunning ts db')). step_of db' < y"
    using ih2 by simp
  have b: "sorted_wrt (<) (step_of db # sent_step r @ sent_steps (run_dunning ts db'))"
  proof (cases r)
    case (Email_sent n k f)
    then have n: "n = step_of db + 1" "step_of db' = n" using sent by simp_all
    show ?thesis using Email_sent n ih2 by auto
  next
    case Sequence_complete
    then show ?thesis using ih2 st later by auto
  next
    case (Wait d)
    then show ?thesis using ih2 st later by auto
  qed
  have b': "sorted_wrt (<) (step_of db # sent_steps (run_dunning (t # ts) db))"
    using b by (simp only: ss)
  show ?case by (rule conjI[OF a b'])
qed

lemma wait_unchanged:
  assumes "conditions_unmet now db"
  shows "is_wait (fst (process_dunning_sequence now db))
       \<and> snd (process_dunning_sequence now db) = db"
proof -
  obtain st where st: "get_sequence_state db = Some st"
    using assms by (auto simp: conditions_unmet_def split: option.splits)
  obtain ns where ns: "get_next_sequence_step (current_step st + 1) db = Some ns"
    and nt: "\<not> should_trigger_step now ns st db"
    using assms st by (auto simp: conditions_unmet_def split: option.splits)
  show ?thesis using ns nt by (simp add: process_with_state[OF st])
qed

lemma wait_only_if_unmet:
  assumes "get_sequence_state db \<noteq> None" "is_wait (fst (process_dunning_sequence now db))"
  shows "conditions_unmet now db"
proof -
  obtain st where st: "get_sequence_state db = Some st" using assms(1) by auto
  show ?thesis
    using assms(2) st
    by (auto simp: process_with_state[OF st] conditions_unmet_def split: option.splits if_splits)
qed

lemmas dunning_eval = example_dunning_db_def process_dunning_sequence_def get_sequence_state_def
  get_next_sequence_step_def should_trigger_step_def check_time_condition_def
  update_sequence_state_def get_next_check_date_def timedelta_hours_def conditions_unmet_def
  step_of_def sent_steps_def start_new_sequence_def Let_def

lemma example_run:
  "map fst (run_dunning [0, 90000, 90001, 270000] example_dunning_db)
     = [Wait 86400, Email_sent 1 ''payment_failed_1'' False, Wait 262801,
        Email_sent 2 ''payment_failed_2'' True]"
  by (simp add: dunning_eval)

text \<open>A wait leaves the tables as the lookup-or-create at the head of the call left them.\<close>

lemma wait_state_after:
  assumes "is_wait (fst (process_dunning_sequence now db))"
  shows "snd (process_dunning_sequence now db)
           = (if get_sequence_state db = None then snd (start_new_sequence now db) else db)"
proof (cases "get_sequence_state db")
  case (Some st)
  then have "conditions_unmet now db" using assms wait_only_if_unmet by auto
  then show ?thesis using Some wait_unchanged by auto
next
  case None
  define db1 where "db1 = snd (start_new_sequence now db)"
  have s: "get_sequence_state db1 \<noteq> None"
    using get_state_after_start[OF None, of now] by (simp add: db1_def)
  have p: "process_dunning_sequence now db = process_dunning_sequence now db1"
    using process_fresh[OF None, of now] by (simp add: db1_def)
  have "conditions_unmet now db1" using assms p s wait_only_if_unmet by auto
  then have "snd (process_dunning_sequence now db1) = db1" using wait_unchanged by blast
  then show ?thesis using None p by (simp add: db1_def)
qed

lemma first_call_wait:
  assumes "get_sequence_state db = None"
    and "conditions_unmet now (snd (start_new_sequence now db))"
  shows "is_wait (fst (process_dunning_sequence now db))
       \<and> snd (process_dunning_sequence now db) = snd (start_new_sequence now db)"
  using process_fresh[OF assms(1), of now] wait_unchanged[OF assms(2)] by simp

text \<open>
  Claim C7, as amended. Across successive calls, each on the tables the previous call
  left, the step the sequence stands at never decreases, and the step numbers of the
  e-mails sent are strictly increasing and above the step the sequence started from, so
  that no step already advanced past is sent again. When an active sequence state exists
  and the trigger conditions of the next step are not met, the call answers wait and
  leaves the tables as they are, and two such calls on the same state both answer wait
  and leave that same state. On the first call for a payment, where no active state
  exists, the call first stores a new active state at step 0, started at the time of the
  call; a wait then leaves exactly the tables with that new state, and a second call with
  the conditions still unmet answers wait and leaves them unchanged.
\<close>

theorem dunning_monotone_idempotent:
  "sorted (step_of db # map (step_of \<circ> snd) (run_dunning ts db))
   \<and> sorted_wrt (<) (step_of db # sent_steps (run_dunning ts db))
   \<and> (conditions_unmet now db \<longrightarrow>
        is_wait (fst (process_dunning_sequence now db))
        \<and> snd (process_dunning_sequence now db) = db)
   \<and> (get_sequence_state db \<noteq> None \<and> is_wait (fst (process_dunning_sequence now db)) \<longrightarrow>
        snd (process_dunning_sequence now db) = db)
   \<and> (conditions_unmet now db \<and> conditions_unmet now' db \<longrightarrow>
        map (is_wait \<circ> fst) (run_dunning [now, now'] db) = [True, True]
        \<and> map snd (run_dunning [now, now'] db) = [db, db])
   \<and> (get_sequence_state db0 = None \<and> is_wait (fst (process_dunning_sequence now db0)) \<longrightarrow>
        snd (process_dunning_sequence now db0) = snd (start_new_sequence now db0)
        \<and> get_sequence_state (snd (process_dunning_sequence now db0))
            = Some \<lparr>current_step = 0, seq_status = ''active'', started_at = now,
                     last_step_at = None\<rparr>)
   \<and> (get_sequence_state db0 = None
        \<and> conditions_unmet now (snd (start_new_sequence now db0))
        \<and> conditions_unmet now' (snd (start_new_sequence now db0)) \<longrightarrow>
        map (is_wait \<circ> fst) (run_dunning [now, now'] db0) = [True, True]
        \<and> map snd (run_dunning [now, now'] db0)
            = [snd (start_new_sequence now db0), snd (start_new_sequence now db0)])"
proof (intro conjI impI)
  show "sorted (step_of db # map (step_of \<circ> snd) (run_dunning ts db))"
    using run_dunning_steps by blast
  show "sorted_wrt (<) (step_of db # sent_steps (run_dunning ts db))"
    using run_dunning_steps by blast
next
  assume "conditions_unmet now db"
  then show "is_wait (fst (process_dunning_sequence now db))"
    and "snd (process_dunning_sequence now db) = db"
    using wait_unchanged by blast+
next
  assume "get_sequence_state db \<noteq> None \<and> is_wait (fst (process_dunning_sequence now db))"
  then have "conditions_unmet now db" using wait_only_if_unmet by blast
  then show "snd (process_dunning_sequence now db) = db" using wait_unchanged by blast
next
  assume a: "conditions_unmet now db \<and> conditions_unmet now' db"
  have 1: "is_wait (fst (process_dunning_sequence now db))"
    "snd (process_dunning_sequence now db) = db"
    using a wait_unchanged by blast+
  have 2: "is_wait (fst (process_dunning_sequence now' db))"
    "snd (process_dunning_sequence now' db) = db"
    using a wait_unchanged by blast+
  show "map (is_wait \<circ> fst) (run_dunning [now, now'] db) = [True, True]"
    using 1 2 by (simp add: case_prod_beta)
  show "map snd (run_dunning [now, now'] db) = [db, db]"
    using 1 2 by (simp add: case_prod_beta)
next
  assume a: "get_sequence_state db0 = None \<and> is_wait (fst (process_dunning_sequence now db0))"
  then show f: "snd (process_dunning_sequence now db0) = snd (start_new_sequence now db0)"
    using wait_state_after[of now db0] by simp
  show "get_sequence_state (snd (process_dunning_sequence now db0))
            = Some \<lparr>current_step = 0, seq_status = ''active'', started_at = now,
                     last_step_at = None\<rparr>"
    using a get_state_after_start[of db0 now] unfolding f
    by (simp add: start_new_sequence_def Let_def)
next
  assume a: "get_sequence_state db0 = None
        \<and> conditions_unmet now (snd (start_new_sequence now db0))
        \<and> conditions_unmet now' (snd (start_new_sequence now db0))"
  define db1 where "db1 = snd (start_new_sequence now db0)"
  have 1: "is_wait (fst (process_dunning_sequence now db0))"
    "snd (process_dunning_sequence now db0) = db1"
    using a first_call_wait[of db0 now] by (simp_all add: db1_def)
  have 2: "is_wait (fst (process_dunning_sequence now' db1))"
    "snd (process_dunning_sequence now' db1) = db1"
    using a wait_unchanged[of now' db1] by (simp_all add: db1_def)
  show "map (is_wait \<circ> fst) (run_dunning [now, now'] db0) = [True, True]"
    using 1 2 by (simp add: case_prod_beta)
  show "map snd (run_dunning [now, now'] db0)
            = [snd (start_new_sequence now db0), snd (start_new_sequence now db0)]"
    using 1 2 by (simp add: case_prod_beta db1_def)
qed

theorem dunning_monotone_idempotent_witness:
  "conditions_unmet 0 example_dunning_db
   \<and> conditions_unmet 3600 example_dunning_db
   \<and> get_sequence_state example_dunning_db \<noteq> None
   \<and> is_wait (fst (process_dunning_sequence 0 example_dunning_db))
   \<and> snd (process_dunning_sequence 0 example_dunning_db) = example_dunning_db
   \<and> map (is_wait \<circ> fst) (run_dunning [0, 3600] example_dunning_db) = [True, True]
   \<and> map snd (run_dunning [0, 3600] example_dunning_db)
       = [example_dunning_db, example_dunning_db]
   \<and> sent_steps (run_dunning [0, 90000, 90001, 270000] example_dunning_db) = [1, 2]
   \<and> map (step_of \<circ> snd) (run_dunning [0, 90000, 90001, 270000] example_dunning_db)
       = [0, 1, 1, 2]
   \<and> sorted (step_of example_dunning_db
        # map (step_of \<circ> snd) (run_dunning [0, 90000, 90001, 270000] example_dunning_db))
   \<and> sorted_wrt (<) (step_of example_dunning_db
        # sent_steps (run_dunning [0, 90000, 90001, 270000] example_dunning_db))
   \<and> get_sequence_state example_fresh_dunning_db = None
   \<and> conditions_unmet 0 (snd (start_new_sequence 0 example_fresh_dunning_db))
   \<and> conditions_unmet 3600 (snd (start_new_sequence 0 example_fresh_dunning_db))
   \<and> is_wait (fst (process_dunning_sequence 0 example_fresh_dunning_db))
   \<and> snd (process_dunning_sequence 0 example_fresh_dunning_db) = example_dunning_db
   \<and> map (is_wait \<circ> fst) (run_dunning [0, 3600] example_fresh_dunning_db) = [True, True]
   \<and> map snd (run_dunning [0, 3600] example_fresh_dunning_db)
       = [example_dunning_db, example_dunning_db]"
  using dunning_monotone_idempotent
    [of example_dunning_db "[0, 90000, 90001, 270000]" 0 3600 example_fresh_dunning_db]
  by (simp add: dunning_eval example_fresh_dunning_db_def)

text \<open>
  The claim as first stated fails on the first call: with no sequence state stored and the
  first step due only after 24 hours, the call at the start answers wait, and the tables
  it leaves hold a new state row where there was none.
\<close>

theorem dunning_first_call_counterexample:
  "get_sequence_state example_fresh_dunning_db = None
   \<and> get_next_sequence_step 1 example_fresh_dunning_db
       = Some \<lparr>step_number = 1, step_active = True,
                step_conditions = Some \<lparr>delay_hours = Some 24, cond_min_amount = None\<rparr>,
                email_template_key = ''payment_failed_1'', is_final = None\<rparr>
   \<and> fst (process_dunning_sequence 0 example_fresh_dunning_db) = Wait 86400
   \<and> seq_states example_fresh_dunning_db = []
   \<and> seq_states (snd (process_dunning_sequence 0 example_fresh_dunning_db))
       = [\<lparr>current_step = 0, seq_status = ''active'', started_at = 0, last_step_at = None\<rparr>]
   \<and> snd (process_dunning_sequence 0 example_fresh_dunning_db) \<noteq> example_fresh_dunning_db"
  by (simp add: dunning_eval example_fresh_dunning_db_def)

end
